theory Spec2Isabelle
  imports Complex_Main "HOL-Library.FSet"
begin

section \<open>Execution coach bot: the record store\<close>

text \<open>
  A shallow embedding of \<^verbatim>\<open>src/bot.py\<close>. The SQLAlchemy models become records, the
  tables become lists of rows in insertion order, and every method that opens a
  session takes the store and returns the updated one.

  A naive \<^verbatim>\<open>datetime\<close> is the number of microseconds since midnight of calendar day 0;
  \<^verbatim>\<open>.date()\<close> is the day number. Calendar days are plain integers: the bounds of
  Python's \<^verbatim>\<open>date\<close> type (years 1 to 9999) are not part of the model.
\<close>

type_synonym datetime = int

definition us_per_day :: int where
  "us_per_day = 86400000000"

definition date_of :: "datetime \<Rightarrow> int" where
  "date_of t = t div us_per_day"

definition timedelta_days :: "int \<Rightarrow> int" where
  "timedelta_days n = n * us_per_day"

text \<open>\<^verbatim>\<open>(a - b).days\<close>: a timedelta is normalised with a non-negative time part, so its
  \<^verbatim>\<open>days\<close> is the floor of the difference.\<close>

definition days_between :: "datetime \<Rightarrow> datetime \<Rightarrow> int" where
  "days_between a b = (a - b) div us_per_day"

text \<open>The two clocks the code reads: \<^verbatim>\<open>datetime.utcnow()\<close> and \<^verbatim>\<open>datetime.now()\<close>
  (process-local time).\<close>

record clock =
  utcnow :: datetime
  localnow :: datetime

record user =
  u_id :: nat
  telegram_id :: int
  username :: "string option"
  first_name :: "string option"
  current_business_idea :: "string option"
  execution_phase :: string
  created_at :: datetime
  timezone :: string
  preferred_checkin_time :: string
  total_activities :: int
  last_active :: datetime

record goal =
  g_id :: nat
  g_user_id :: int
  title :: string
  g_description :: "string option"
  target_date :: "datetime option"
  status :: string
  g_created_at :: datetime
  goal_type :: "string option"
  priority :: int

record activity =
  a_id :: nat
  a_user_id :: int
  goal_id :: "nat option"
  description :: string
  activity_type :: string
  timestamp :: datetime
  mood_score :: "int option"
  a_notes :: "string option"
  context_tags :: "string option"

record progress =
  p_id :: nat
  p_user_id :: int
  metric_name :: "string option"
  metric_value :: "real option"
  date_recorded :: datetime
  p_notes :: "string option"

record conversation =
  c_id :: nat
  c_user_id :: int
  message_text :: string
  bot_response :: string
  c_context_tags :: string
  c_timestamp :: datetime
  response_type :: string

record db =
  users :: "user list"
  goals :: "goal list"
  activities :: "activity list"
  progress_rows :: "progress list"
  conversations :: "conversation list"

text \<open>\<^verbatim>\<open>session.query(User).filter_by(telegram_id=...).first()\<close>\<close>

definition query_user :: "db \<Rightarrow> int \<Rightarrow> user option" where
  "query_user d tid = find (\<lambda>u. telegram_id u = tid) (users d)"

text \<open>\<^verbatim>\<open>query(Activity).filter_by(user_id=...).order_by(Activity.timestamp.desc())\<close>.
  SQL leaves the order of equal timestamps open; the model keeps insertion order there.\<close>

definition activities_desc :: "db \<Rightarrow> int \<Rightarrow> activity list" where
  "activities_desc d uid =
     sort_key (\<lambda>a. - timestamp a) (filter (\<lambda>a. a_user_id a = uid) (activities d))"

section \<open>UserContext\<close>

datatype ctx_value =
    VUser user
  | VActivities "activity list"
  | VGoals "goal list"
  | VConversations "conversation list"
  | VCheckin "datetime option"
  | VInt int
  | VStr string

type_synonym context_data = "string \<rightharpoonup> ctx_value"

record user_context =
  uc_user_id :: int
  uc_user_data :: "context_data option"

text \<open>\<^verbatim>\<open>UserContext(db, user_id)\<close>\<close>

definition new_user_context :: "int \<Rightarrow> user_context" where
  "new_user_context uid = \<lparr>uc_user_id = uid, uc_user_data = None\<rparr>"

subsection \<open>calculate\_streak\<close>

text \<open>The \<^verbatim>\<open>while check_date in activity_dates\<close> loop. A Python set is finite, which
  is what makes the walk stop.\<close>

function streak_loop :: "int fset \<Rightarrow> int \<Rightarrow> nat \<Rightarrow> nat" where
  "streak_loop activity_dates check_date streak =
     (if check_date |\<in>| activity_dates
      then streak_loop activity_dates (check_date - 1) (streak + 1)
      else streak)"
  by pat_completeness auto
termination
proof (relation "measure (\<lambda>(D, c, s). card {d \<in> fset D. d \<le> c})")
  show "wf (measure (\<lambda>(D, c, s). card {d \<in> fset D. d \<le> c}))"
    by simp
next
  fix activity_dates :: "int fset" and check_date :: int and streak :: nat
  assume present: "check_date |\<in>| activity_dates"
  have "{d \<in> fset activity_dates. d \<le> check_date - 1}
          \<subset> {d \<in> fset activity_dates. d \<le> check_date}"
    using present by auto
  moreover have "finite {d \<in> fset activity_dates. d \<le> check_date}"
    by simp
  ultimately have "card {d \<in> fset activity_dates. d \<le> check_date - 1}
                     < card {d \<in> fset activity_dates. d \<le> check_date}"
    by (rule psubset_card_mono[rotated])
  then show "((activity_dates, check_date - 1, streak + 1), (activity_dates, check_date, streak))
               \<in> measure (\<lambda>(D, c, s). card {d \<in> fset D. d \<le> c})"
    by simp
qed

declare streak_loop.simps [simp del]

text \<open>The \<^verbatim>\<open>for activity in activities: activity_dates.add(...)\<close> loop.\<close>

definition collect_dates :: "activity list \<Rightarrow> int fset" where
  "collect_dates acts = fold (\<lambda>a s. finsert (date_of (timestamp a)) s) acts {||}"

definition calculate_streak :: "db \<Rightarrow> clock \<Rightarrow> user_context \<Rightarrow> nat" where
  "calculate_streak d clk self =
     (let acts = activities_desc d (uc_user_id self) in
      if acts = [] then 0
      else
        let current_date = date_of (localnow clk);
            activity_dates = collect_dates acts
        in streak_loop activity_dates current_date 0)"

text \<open>The set of distinct calendar dates of a user's activity timestamps.\<close>

definition activity_dates_of :: "db \<Rightarrow> int \<Rightarrow> int set" where
  "activity_dates_of d uid =
     set (map (\<lambda>a. date_of (timestamp a)) (filter (\<lambda>a. a_user_id a = uid) (activities d)))"

subsection \<open>get\_last\_checkin, get\_user\_data, log\_activity\<close>

definition get_last_checkin :: "db \<Rightarrow> user_context \<Rightarrow> datetime option" where
  "get_last_checkin d self =
     (case activities_desc d (uc_user_id self) of
        [] \<Rightarrow> None
      | last_activity # _ \<Rightarrow> Some (timestamp last_activity))"

definition active_goals_of :: "db \<Rightarrow> int \<Rightarrow> goal list" where
  "active_goals_of d uid =
     sort_key (\<lambda>g. - priority g)
       (filter (\<lambda>g. g_user_id g = uid \<and> status g = ''active'') (goals d))"

definition conversations_desc :: "db \<Rightarrow> int \<Rightarrow> conversation list" where
  "conversations_desc d uid =
     sort_key (\<lambda>c. - c_timestamp c) (filter (\<lambda>c. c_user_id c = uid) (conversations d))"

text \<open>The dict literal of \<^verbatim>\<open>get_user_data\<close>, key by key.\<close>

definition build_user_data :: "db \<Rightarrow> clock \<Rightarrow> user_context \<Rightarrow> user \<Rightarrow> context_data" where
  "build_user_data d clk self usr =
     [''user'' \<mapsto> VUser usr,
      ''recent_activities'' \<mapsto> VActivities (take 20 (activities_desc d (uc_user_id self))),
      ''active_goals'' \<mapsto> VGoals (active_goals_of d (uc_user_id self)),
      ''recent_conversations'' \<mapsto> VConversations (take 10 (conversations_desc d (uc_user_id self))),
      ''last_checkin'' \<mapsto> VCheckin (get_last_checkin d self),
      ''current_streak'' \<mapsto> VInt (int (calculate_streak d clk self)),
      ''execution_phase'' \<mapsto> VStr (execution_phase usr),
      ''total_activities'' \<mapsto> VInt (total_activities usr),
      ''days_since_start'' \<mapsto> VInt (days_between (utcnow clk) (created_at usr))]"

text \<open>\<^verbatim>\<open>get_user_data\<close> returns the cached dict when there is one; otherwise it reads the
  store. With no User row it returns the empty dict \<^verbatim>\<open>{}\<close> and caches nothing.\<close>

definition get_user_data :: "db \<Rightarrow> clock \<Rightarrow> user_context \<Rightarrow> context_data \<times> user_context" where
  "get_user_data d clk self =
     (case uc_user_data self of
        Some cached \<Rightarrow> (cached, self)
      | None \<Rightarrow>
          (case query_user d (uc_user_id self) of
             None \<Rightarrow> (Map.empty, self)
           | Some usr \<Rightarrow>
               (let data = build_user_data d clk self usr
                in (data, self\<lparr>uc_user_data := Some data\<rparr>))))"

text \<open>Updating the row that \<^verbatim>\<open>.first()\<close> returned.\<close>

fun update_first :: "('a \<Rightarrow> bool) \<Rightarrow> ('a \<Rightarrow> 'a) \<Rightarrow> 'a list \<Rightarrow> 'a list" where
  "update_first P f [] = []"
| "update_first P f (x # xs) = (if P x then f x # xs else x # update_first P f xs)"

definition log_activity ::
  "db \<Rightarrow> clock \<Rightarrow> user_context \<Rightarrow> string \<Rightarrow> string \<Rightarrow> int option \<Rightarrow> string option \<Rightarrow> string option
     \<Rightarrow> db \<times> user_context" where
  "log_activity d clk self descr atype mood nts tags =
     (let new_activity =
            \<lparr>a_id = length (activities d) + 1, a_user_id = uc_user_id self, goal_id = None,
             description = descr, activity_type = atype, timestamp = utcnow clk,
             mood_score = mood, a_notes = nts, context_tags = tags\<rparr>;
          d1 = d\<lparr>activities := activities d @ [new_activity]\<rparr>;
          d2 = (case query_user d1 (uc_user_id self) of
                  None \<Rightarrow> d1
                | Some _ \<Rightarrow>
                    d1\<lparr>users :=
                         update_first (\<lambda>u. telegram_id u = uc_user_id self)
                           (\<lambda>u. u\<lparr>total_activities := total_activities u + 1,
                                   last_active := utcnow clk\<rparr>)
                           (users d1)\<rparr>)
      in (d2, self\<lparr>uc_user_data := None\<rparr>))"

subsection \<open>DatabaseManager.get\_or\_create\_user\<close>

record telegram_user =
  tg_id :: int
  tg_username :: "string option"
  tg_first_name :: string

definition get_or_create_user :: "db \<Rightarrow> clock \<Rightarrow> telegram_user \<Rightarrow> db \<times> user" where
  "get_or_create_user d clk tu =
     (case query_user d (tg_id tu) of
        None \<Rightarrow>
          (let usr = \<lparr>u_id = length (users d) + 1, telegram_id = tg_id tu,
                      username = tg_username tu, first_name = Some (tg_first_name tu),
                      current_business_idea = None, execution_phase = ''planning'',
                      created_at = utcnow clk, timezone = ''UTC'',
                      preferred_checkin_time = ''18:00'', total_activities = 0,
                      last_active = utcnow clk\<rparr>
           in (d\<lparr>users := users d @ [usr]\<rparr>, usr))
      | Some usr \<Rightarrow>
          (d\<lparr>users := update_first (\<lambda>u. telegram_id u = tg_id tu)
                         (\<lambda>u. u\<lparr>last_active := utcnow clk\<rparr>) (users d)\<rparr>,
           usr\<lparr>last_active := utcnow clk\<rparr>))"

section \<open>Strings\<close>

text \<open>
  A Python \<^verbatim>\<open>str\<close> is modelled by its UTF-8 bytes. An ASCII word occurs in a text
  exactly when its bytes occur in the text's bytes, since every byte of a non-ASCII
  character is 128 or more.

  \<^verbatim>\<open>str.lower\<close> turns \<open>A\<close> to \<open>Z\<close> into \<open>a\<close> to \<open>z\<close>, and exactly two
  characters outside ASCII into text that holds an ASCII letter: U+212A KELVIN SIGN
  becomes \<open>k\<close>, and U+0130 LATIN CAPITAL LETTER I WITH DOT ABOVE becomes \<open>i\<close> followed by
  U+0307 COMBINING DOT ABOVE. \<open>lower\<close> does all three. Every other character outside
  ASCII is lower-cased by Python to characters outside ASCII again; \<open>lower\<close> leaves its
  bytes as they are, so the ASCII bytes of the result, and which of them are next to each
  other, are those of \<^verbatim>\<open>str.lower\<close>. The code only ever asks whether an ASCII keyword
  occurs in the lower-cased text, or whether the lower-cased text is one of four ASCII
  words, and both answers depend on nothing else.

  \<^verbatim>\<open>str.upper\<close> is modelled on the ASCII letters. The code applies it to the execution
  phase only, which is \<open>planning\<close> by default and is only ever set to one of four ASCII
  words.
\<close>

definition lower_char :: "char \<Rightarrow> char" where
  "lower_char c =
     (let n = (of_char c :: nat) in if 65 \<le> n \<and> n \<le> 90 then char_of (n + 32) else c)"

definition upper_char :: "char \<Rightarrow> char" where
  "upper_char c =
     (let n = (of_char c :: nat) in if 97 \<le> n \<and> n \<le> 122 then char_of (n - 32) else c)"

definition kelvin_sign :: string where
  "kelvin_sign = [CHR 0xE2, CHR 0x84, CHR 0xAA]"

definition capital_i_dot_above :: string where
  "capital_i_dot_above = [CHR 0xC4, CHR 0xB0]"

definition combining_dot_above :: string where
  "combining_dot_above = [CHR 0xCC, CHR 0x87]"

fun lower :: "string \<Rightarrow> string" where
  "lower [] = []"
| "lower (c # s) =
     (if c = CHR 0xE2 \<and> take 2 s = [CHR 0x84, CHR 0xAA] then CHR ''k'' # lower (drop 2 s)
      else if c = CHR 0xC4 \<and> take 1 s = [CHR 0xB0]
      then CHR ''i'' # combining_dot_above @ lower (drop 1 s)
      else lower_char c # lower s)"

definition upper :: "string \<Rightarrow> string" where
  "upper s = map upper_char s"

fun starts_with :: "string \<Rightarrow> string \<Rightarrow> bool" where
  "starts_with [] s = True"
| "starts_with (c # w) [] = False"
| "starts_with (c # w) (x # s) = (c = x \<and> starts_with w s)"

text \<open>\<^verbatim>\<open>word in s\<close> on strings: \<^verbatim>\<open>word\<close> occurs as a contiguous substring.\<close>

fun str_in :: "string \<Rightarrow> string \<Rightarrow> bool" where
  "str_in w [] = (w = [])"
| "str_in w (x # s) = (starts_with w (x # s) \<or> str_in w s)"

text \<open>\<^verbatim>\<open>any(word in message_lower for word in words)\<close>\<close>

definition any_word_in :: "string list \<Rightarrow> string \<Rightarrow> bool" where
  "any_word_in ws s = list_ex (\<lambda>w. str_in w s) ws"

text \<open>\<^verbatim>\<open>sep.join(xs)\<close>\<close>

fun join :: "string \<Rightarrow> string list \<Rightarrow> string" where
  "join sep [] = []"
| "join sep [x] = x"
| "join sep (x # y # ys) = x @ sep @ join sep (y # ys)"

text \<open>\<^verbatim>\<open>str.strip()\<close> removes the characters for which \<^verbatim>\<open>str.isspace\<close> holds from both
  ends: ten ASCII control and space characters and nineteen characters outside ASCII
  (U+0085, U+00A0, U+1680, U+2000 to U+200A, U+2028, U+2029, U+202F, U+205F, U+3000),
  listed here by their UTF-8 bytes.\<close>

definition whitespace :: "string list" where
  "whitespace =
     [[CHR 0x09], [CHR 0x0A], [CHR 0x0B], [CHR 0x0C], [CHR 0x0D],
      [CHR 0x1C], [CHR 0x1D], [CHR 0x1E], [CHR 0x1F], [CHR 0x20],
      [CHR 0xC2, CHR 0x85], [CHR 0xC2, CHR 0xA0], [CHR 0xE1, CHR 0x9A, CHR 0x80],
      [CHR 0xE2, CHR 0x80, CHR 0x80], [CHR 0xE2, CHR 0x80, CHR 0x81],
      [CHR 0xE2, CHR 0x80, CHR 0x82], [CHR 0xE2, CHR 0x80, CHR 0x83],
      [CHR 0xE2, CHR 0x80, CHR 0x84], [CHR 0xE2, CHR 0x80, CHR 0x85],
      [CHR 0xE2, CHR 0x80, CHR 0x86], [CHR 0xE2, CHR 0x80, CHR 0x87],
      [CHR 0xE2, CHR 0x80, CHR 0x88], [CHR 0xE2, CHR 0x80, CHR 0x89],
      [CHR 0xE2, CHR 0x80, CHR 0x8A], [CHR 0xE2, CHR 0x80, CHR 0xA8],
      [CHR 0xE2, CHR 0x80, CHR 0xA9], [CHR 0xE2, CHR 0x80, CHR 0xAF],
      [CHR 0xE2, CHR 0x81, CHR 0x9F], [CHR 0xE3, CHR 0x80, CHR 0x80]]"

text \<open>Dropping leading characters of a given list, one whole character at a time.\<close>

function lstrip_of :: "string list \<Rightarrow> string \<Rightarrow> string" where
  "lstrip_of seqs s =
     (case find (\<lambda>w. w \<noteq> [] \<and> starts_with w s) seqs of
        None \<Rightarrow> s
      | Some w \<Rightarrow> lstrip_of seqs (drop (length w) s))"
  by pat_completeness auto
termination
proof (relation "measure (\<lambda>(seqs, s). length s)")
  show "wf (measure (\<lambda>(seqs, s). length s))"
    by simp
next
  fix seqs :: "string list" and s w :: string
  assume "find (\<lambda>w. w \<noteq> [] \<and> starts_with w s) seqs = Some w"
  then have w: "w \<noteq> []" "starts_with w s"
    by (auto simp add: find_Some_iff)
  then have "s \<noteq> []"
    by (cases w; cases s) simp_all
  then have "length (drop (length w) s) < length s"
    using w(1) by simp
  then show "((seqs, drop (length w) s), (seqs, s)) \<in> measure (\<lambda>(seqs, s). length s)"
    by simp
qed

declare lstrip_of.simps [simp del]

text \<open>The trailing characters are the leading ones of the reversed text.\<close>

definition strip :: "string \<Rightarrow> string" where
  "strip s = rev (lstrip_of (map rev whitespace) (rev (lstrip_of whitespace s)))"

text \<open>\<^verbatim>\<open>str(n)\<close> for integers, as an f-string renders them.\<close>

fun str_nat :: "nat \<Rightarrow> string" where
  "str_nat n =
     (if n < 10 then [char_of (48 + n)] else str_nat (n div 10) @ [char_of (48 + n mod 10)])"

definition str_int :: "int \<Rightarrow> string" where
  "str_int i = (if i < 0 then ''-'' @ str_nat (nat (- i)) else str_nat (nat i))"

text \<open>An f-string renders \<^verbatim>\<open>None\<close> as the text \<^verbatim>\<open>None\<close>.\<close>

definition str_opt :: "string option \<Rightarrow> string" where
  "str_opt v = (case v of None \<Rightarrow> ''None'' | Some s \<Rightarrow> s)"

text \<open>No handler of the code sets a goal's \<^verbatim>\<open>target_date\<close>, so a stored date is never
  rendered; a stored value is shown by its microsecond count.\<close>

definition str_datetime_opt :: "datetime option \<Rightarrow> string" where
  "str_datetime_opt v = (case v of None \<Rightarrow> ''None'' | Some t \<Rightarrow> str_int t)"

definition nl :: string where
  "nl = [CHR 0x0A]"

text \<open>The emoji of the reply templates, as their UTF-8 bytes.\<close>

definition emoji_rocket :: string where
  "emoji_rocket = [CHR 0xF0, CHR 0x9F, CHR 0x9A, CHR 0x80]"

definition emoji_chart :: string where
  "emoji_chart = [CHR 0xF0, CHR 0x9F, CHR 0x93, CHR 0x88]"

definition emoji_party :: string where
  "emoji_party = [CHR 0xF0, CHR 0x9F, CHR 0x8E, CHR 0x89]"

definition emoji_muscle :: string where
  "emoji_muscle = [CHR 0xF0, CHR 0x9F, CHR 0x92, CHR 0xAA]"

definition emoji_target :: string where
  "emoji_target = [CHR 0xF0, CHR 0x9F, CHR 0x8E, CHR 0xAF]"

definition emoji_siren :: string where
  "emoji_siren = [CHR 0xF0, CHR 0x9F, CHR 0x9A, CHR 0xA8]"

definition emoji_sunrise :: string where
  "emoji_sunrise = [CHR 0xF0, CHR 0x9F, CHR 0x8C, CHR 0x85]"

definition emoji_calendar :: string where
  "emoji_calendar = [CHR 0xF0, CHR 0x9F, CHR 0x93, CHR 0x85]"

definition emoji_bulb :: string where
  "emoji_bulb = [CHR 0xF0, CHR 0x9F, CHR 0x92, CHR 0xA1]"

definition emoji_bars :: string where
  "emoji_bars = [CHR 0xF0, CHR 0x9F, CHR 0x93, CHR 0x8A]"

definition dquote :: string where
  "dquote = [CHR 0x22]"

section \<open>GeminiCoach\<close>

text \<open>What one call of \<^verbatim>\<open>self.model.generate_content(prompt)\<close> can do: raise (also when
  \<^verbatim>\<open>response.text\<close> is read), return nothing, or return a response whose text is absent
  or a string.\<close>

datatype gen_outcome = GenError string | GenNone | GenText "string option"

record gemini_coach =
  api_key :: "string option"
  enabled :: bool
  model :: "(string \<Rightarrow> gen_outcome) option"
  business_ideas_prompt :: string
  market_research_prompt :: string
  execution_coach_prompt :: string

text \<open>\<^verbatim>\<open>context_data.get(key, default)\<close> at the types the code reads.\<close>

definition ctx_user :: "context_data \<Rightarrow> user option" where
  "ctx_user cd = (case cd ''user'' of Some (VUser u) \<Rightarrow> Some u | _ \<Rightarrow> None)"

definition ctx_int :: "context_data \<Rightarrow> string \<Rightarrow> int \<Rightarrow> int" where
  "ctx_int cd k dflt = (case cd k of Some (VInt n) \<Rightarrow> n | _ \<Rightarrow> dflt)"

definition ctx_str :: "context_data \<Rightarrow> string \<Rightarrow> string \<Rightarrow> string" where
  "ctx_str cd k dflt = (case cd k of Some (VStr v) \<Rightarrow> v | _ \<Rightarrow> dflt)"

definition ctx_activities :: "context_data \<Rightarrow> activity list" where
  "ctx_activities cd =
     (case cd ''recent_activities'' of Some (VActivities xs) \<Rightarrow> xs | _ \<Rightarrow> [])"

definition ctx_goals :: "context_data \<Rightarrow> goal list" where
  "ctx_goals cd = (case cd ''active_goals'' of Some (VGoals xs) \<Rightarrow> xs | _ \<Rightarrow> [])"

subsection \<open>create\_coaching\_prompt\<close>

definition activities_summary :: "activity list \<Rightarrow> string" where
  "activities_summary recent_activities =
     (if recent_activities = [] then []
      else ''Recent activities:'' @ nl @
           concat (map (\<lambda>a. ''- '' @ description a @ '' ('' @ activity_type a @ '')'' @ nl)
                       (take 5 recent_activities)))"

definition goals_summary :: "goal list \<Rightarrow> string" where
  "goals_summary active_goals =
     (if active_goals = [] then []
      else ''Current goals:'' @ nl @
           concat (map (\<lambda>g. ''- '' @ title g @ '' (due: '' @ str_datetime_opt (target_date g)
                                @ '')'' @ nl)
                       active_goals))"

definition business_context :: "user option \<Rightarrow> string" where
  "business_context usr =
     (case usr of
        Some u \<Rightarrow>
          (case current_business_idea u of
             Some idea \<Rightarrow> if idea \<noteq> [] then ''Business idea: '' @ idea
                          else ''No business idea set yet''
           | None \<Rightarrow> ''No business idea set yet'')
      | None \<Rightarrow> ''No business idea set yet'')"

definition coaching_guidelines :: string where
  "coaching_guidelines =
     ''## COACHING GUIDELINES:'' @ nl @
     ''- Be encouraging but realistic'' @ nl @
     ''- Reference their specific history and patterns'' @ nl @
     ''- Give concrete, actionable advice'' @ nl @
     ''- Keep responses under 200 words'' @ nl @
     ''- Use emojis sparingly but effectively'' @ nl @
     ''- Address their specific challenges (procrastination, impatience, resource constraints)'' @ nl @
     ''- Acknowledge progress and patterns you notice'' @ nl @
     ''- If they're stuck, suggest a 5-minute micro-action'' @ nl @
     ''- If they're impatient, remind them of realistic timelines for solo entrepreneurs'' @ nl @
     ''- If they achieved something, celebrate and ask what they learned'' @ nl @
     nl @
     ''Provide a personalized coaching response that shows you understand their journey and current situation.'' @ nl @
     ''        ''"

definition create_coaching_prompt :: "gemini_coach \<Rightarrow> string \<Rightarrow> context_data \<Rightarrow> string" where
  "create_coaching_prompt self message context_data =
     (let usr = ctx_user context_data;
          recent_activities = ctx_activities context_data;
          active_goals = ctx_goals context_data;
          streak = ctx_int context_data ''current_streak'' 0;
          phase = ctx_str context_data ''execution_phase'' ''planning'';
          total = ctx_int context_data ''total_activities'' 0;
          days_since_start = ctx_int context_data ''days_since_start'' 0
      in nl @ execution_coach_prompt self @ nl @
         nl @
         ''## USER CONTEXT:'' @ nl @
         ''- Name: '' @ (case usr of Some u \<Rightarrow> str_opt (first_name u) | None \<Rightarrow> ''User'') @ nl @
         ''- '' @ business_context usr @ nl @
         ''- Execution phase: '' @ phase @ nl @
         ''- Days using coach: '' @ str_int days_since_start @ nl @
         ''- Current streak: '' @ str_int streak @ '' days'' @ nl @
         ''- Total actions taken: '' @ str_int total @ nl @
         nl @
         activities_summary recent_activities @ nl @
         nl @
         goals_summary active_goals @ nl @
         nl @
         ''## USER MESSAGE: '' @ dquote @ message @ dquote @ nl @
         nl @
         coaching_guidelines)"

subsection \<open>fallback\_response\<close>

definition procrastination_words :: "string list" where
  "procrastination_words =
     [''procrastinating'', ''avoiding'', ''stuck'', ''overwhelmed'', ''can't start'']"

definition impatience_words :: "string list" where
  "impatience_words = [''slow'', ''not working'', ''no results'', ''giving up'', ''frustrated'']"

definition celebration_words :: "string list" where
  "celebration_words = [''completed'', ''finished'', ''done'', ''achieved'', ''launched'', ''win'']"

text \<open>\<^verbatim>\<open>user.first_name if user else 'friend'\<close>\<close>

definition friend_name :: "user option \<Rightarrow> string" where
  "friend_name usr = (case usr of Some u \<Rightarrow> str_opt (first_name u) | None \<Rightarrow> ''friend'')"

definition procrastination_reply :: "user option \<Rightarrow> int \<Rightarrow> string \<Rightarrow> string" where
  "procrastination_reply usr streak phase =
     ''I see you're feeling stuck, '' @ friend_name usr @ ''. Your '' @ str_int streak
     @ ''-day streak shows you CAN take action! Let's break this down: what's the smallest possible step you could take in the next 5 minutes? Even tiny progress in the ''
     @ phase @ '' phase builds momentum. '' @ emoji_rocket"

definition impatience_reply :: "int \<Rightarrow> string \<Rightarrow> string" where
  "impatience_reply streak phase =
     ''I understand the frustration! In the '' @ phase
     @ '' phase, most solo entrepreneurs need 3-6 months to see real results. Your ''
     @ str_int streak
     @ ''-day action streak is exactly how success builds - one step at a time. What would count as progress in the next 7 days? ''
     @ emoji_chart"

definition celebration_reply :: "int \<Rightarrow> string \<Rightarrow> string" where
  "celebration_reply streak phase =
     emoji_party @ '' Amazing work! That's day '' @ str_int (streak + 1)
     @ '' of taking action. This is exactly how momentum builds in the '' @ phase
     @ '' phase. What felt good about completing that? And what's the next small step to keep this energy going? ''
     @ emoji_muscle"

definition general_reply :: "user option \<Rightarrow> int \<Rightarrow> string \<Rightarrow> string" where
  "general_reply usr streak phase =
     ''I'm here to help you execute, '' @ friend_name usr @ ''! You're in the '' @ phase
     @ '' phase with a '' @ str_int streak
     @ ''-day action streak. What's on your mind? Use /stuck if you're procrastinating, /win to celebrate progress, or just tell me what you're working on! ''
     @ emoji_target"

definition fallback_response :: "gemini_coach \<Rightarrow> string \<Rightarrow> context_data \<Rightarrow> string" where
  "fallback_response self message context_data =
     (let usr = ctx_user context_data;
          streak = ctx_int context_data ''current_streak'' 0;
          phase = ctx_str context_data ''execution_phase'' ''planning'';
          message_lower = lower message
      in if any_word_in procrastination_words message_lower
         then procrastination_reply usr streak phase
         else if any_word_in impatience_words message_lower
         then impatience_reply streak phase
         else if any_word_in celebration_words message_lower
         then celebration_reply streak phase
         else general_reply usr streak phase)"

subsection \<open>generate\_response\<close>

text \<open>The call inside the \<^verbatim>\<open>try\<close> block; a coach without a model object raises on the
  attribute access.\<close>

definition generate_content :: "gemini_coach \<Rightarrow> string \<Rightarrow> gen_outcome" where
  "generate_content self prompt =
     (case model self of None \<Rightarrow> GenError ''AttributeError'' | Some g \<Rightarrow> g prompt)"

definition generate_response :: "gemini_coach \<Rightarrow> string \<Rightarrow> context_data \<Rightarrow> string" where
  "generate_response self message context_data =
     (if \<not> enabled self then fallback_response self message context_data
      else
        (case generate_content self (create_coaching_prompt self message context_data) of
           GenText (Some response_text) \<Rightarrow>
             if response_text \<noteq> [] then strip response_text
             else fallback_response self message context_data
         | GenText None \<Rightarrow> fallback_response self message context_data
         | GenNone \<Rightarrow> fallback_response self message context_data
         | GenError e \<Rightarrow> fallback_response self message context_data))"

section \<open>ExecutionCoachBot\<close>

text \<open>A handler takes the coach (\<^verbatim>\<open>self.gemini_coach\<close>), the store, the clocks and the
  Telegram update, and returns the store it leaves and the texts it replies with.\<close>

record update =
  effective_user :: telegram_user
  text_in :: string

subsection \<open>analyze\_message\_context\<close>

definition tag_procrastination_words :: "string list" where
  "tag_procrastination_words = [''procrastinating'', ''avoiding'', ''stuck'', ''overwhelmed'']"

definition tag_impatience_words :: "string list" where
  "tag_impatience_words = [''slow'', ''frustrated'', ''no results'', ''impatient'']"

definition tag_win_words :: "string list" where
  "tag_win_words = [''completed'', ''finished'', ''done'', ''win'', ''success'']"

definition tag_customer_words :: "string list" where
  "tag_customer_words = [''customer'', ''client'', ''user'', ''sale'']"

definition tag_financial_words :: "string list" where
  "tag_financial_words = [''money'', ''revenue'', ''funding'', ''investment'']"

text \<open>The five \<^verbatim>\<open>if any(...): tags.append(...)\<close> statements, in the order of the code.\<close>

definition message_tags :: "string \<Rightarrow> string list" where
  "message_tags message =
     (let message_lower = lower message;
          tags0 = [];
          tags1 = (if any_word_in tag_procrastination_words message_lower
                   then tags0 @ [''procrastination''] else tags0);
          tags2 = (if any_word_in tag_impatience_words message_lower
                   then tags1 @ [''impatience''] else tags1);
          tags3 = (if any_word_in tag_win_words message_lower
                   then tags2 @ [''win''] else tags2);
          tags4 = (if any_word_in tag_customer_words message_lower
                   then tags3 @ [''customer_related''] else tags3);
          tags5 = (if any_word_in tag_financial_words message_lower
                   then tags4 @ [''financial''] else tags4)
      in tags5)"

definition analyze_message_context :: "string \<Rightarrow> string" where
  "analyze_message_context message =
     (let tags = message_tags message in if tags \<noteq> [] then join '','' tags else ''general'')"

subsection \<open>handle\_message\<close>

definition handle_message :: "gemini_coach \<Rightarrow> db \<Rightarrow> clock \<Rightarrow> update \<Rightarrow> db \<times> string list" where
  "handle_message coach d clk upd =
     (let user_id = tg_id (effective_user upd);
          message_text_v = text_in upd;
          (d1, _) = get_or_create_user d clk (effective_user upd);
          user_ctx = new_user_context user_id;
          (context_data, user_ctx1) = get_user_data d1 clk user_ctx;
          response = generate_response coach message_text_v context_data;
          response_type_v = (if enabled coach then ''gemini'' else ''fallback'');
          context_tags_v = analyze_message_context message_text_v;
          conv = \<lparr>c_id = length (conversations d1) + 1, c_user_id = user_id,
                  message_text = message_text_v, bot_response = response,
                  c_context_tags = context_tags_v, c_timestamp = utcnow clk,
                  response_type = response_type_v\<rparr>;
          d2 = d1\<lparr>conversations := conversations d1 @ [conv]\<rparr>
      in (d2, [response]))"

subsection \<open>handle\_stuck and log\_win\<close>

definition unstuck_message :: string where
  "unstuck_message =
     ''I'm feeling stuck and procrastinating. Please help me get unstuck with a specific 5-minute action I can take right now.''"

text \<open>\<^verbatim>\<open>handle_stuck\<close> reads the context first and logs the blocker afterwards; the
  response is generated from the context read before the write. The second component of
  the result is that context.\<close>

definition handle_stuck_parts ::
  "gemini_coach \<Rightarrow> db \<Rightarrow> clock \<Rightarrow> update \<Rightarrow> db \<times> context_data \<times> string list" where
  "handle_stuck_parts coach d clk upd =
     (let user_id = tg_id (effective_user upd);
          user_ctx = new_user_context user_id;
          (context_data, user_ctx1) = get_user_data d clk user_ctx;
          (d1, user_ctx2) =
             log_activity d clk user_ctx1 ''User reported feeling stuck'' ''blocker''
               None None (Some ''procrastination,stuck'');
          response = generate_response coach unstuck_message context_data
      in (d1, context_data,
          [emoji_siren @ '' Stuck Alert Activated!'' @ nl @ nl @ response]))"

definition handle_stuck :: "gemini_coach \<Rightarrow> db \<Rightarrow> clock \<Rightarrow> update \<Rightarrow> db \<times> string list" where
  "handle_stuck coach d clk upd =
     (let (d1, context_data, replies) = handle_stuck_parts coach d clk upd in (d1, replies))"

definition win_description :: "string list \<Rightarrow> string" where
  "win_description args = (if args \<noteq> [] then join '' '' args else ''Achieved a win!'')"

definition celebration_message :: "string \<Rightarrow> string" where
  "celebration_message descr =
     ''I just achieved a win: '' @ descr
     @ ''. Please celebrate with me and help me build on this momentum!''"

text \<open>\<^verbatim>\<open>log_win\<close> logs first and reads the context afterwards.\<close>

definition log_win_parts ::
  "gemini_coach \<Rightarrow> db \<Rightarrow> clock \<Rightarrow> update \<Rightarrow> string list \<Rightarrow> db \<times> context_data \<times> string list" where
  "log_win_parts coach d clk upd args =
     (let user_id = tg_id (effective_user upd);
          descr = win_description args;
          user_ctx = new_user_context user_id;
          (d1, user_ctx1) =
             log_activity d clk user_ctx descr ''win'' (Some 4) None (Some ''win,celebration'');
          (context_data, user_ctx2) = get_user_data d1 clk user_ctx1;
          response = generate_response coach (celebration_message descr) context_data
      in (d1, context_data, [emoji_party @ '' Win Logged!'' @ nl @ nl @ response]))"

definition log_win ::
  "gemini_coach \<Rightarrow> db \<Rightarrow> clock \<Rightarrow> update \<Rightarrow> string list \<Rightarrow> db \<times> string list" where
  "log_win coach d clk upd args =
     (let (d1, context_data, replies) = log_win_parts coach d clk upd args in (d1, replies))"

subsection \<open>set\_goal, set\_business\_idea, set\_phase\<close>

definition set_goal :: "db \<Rightarrow> clock \<Rightarrow> update \<Rightarrow> string list \<Rightarrow> db \<times> string list" where
  "set_goal d clk upd args =
     (if args \<noteq> [] then
        (let goal_text = join '' '' args;
             new_goal = \<lparr>g_id = length (goals d) + 1, g_user_id = tg_id (effective_user upd),
                         title = goal_text, g_description = None, target_date = None,
                         status = ''active'', g_created_at = utcnow clk,
                         goal_type = Some ''general'', priority = 1\<rparr>
         in (d\<lparr>goals := goals d @ [new_goal]\<rparr>,
             [emoji_target @ '' Goal set: '' @ goal_text @ nl @ nl
              @ ''What's the first small step toward this goal?'']))
      else (d, [''Usage: /goal Your goal description'']))"

definition start_first :: string where
  "start_first = ''Please use /start first to initialize your profile.''"

definition set_business_idea :: "db \<Rightarrow> update \<Rightarrow> string list \<Rightarrow> db \<times> string list" where
  "set_business_idea d upd args =
     (if args \<noteq> [] then
        (let idea = join '' '' args in
         case query_user d (tg_id (effective_user upd)) of
           Some _ \<Rightarrow>
             (d\<lparr>users := update_first (\<lambda>u. telegram_id u = tg_id (effective_user upd))
                            (\<lambda>u. u\<lparr>current_business_idea := Some idea\<rparr>) (users d)\<rparr>,
              [emoji_bulb @ '' Business idea set: '' @ idea @ nl @ nl
               @ ''Now use /phase to set your current execution phase!''])
         | None \<Rightarrow> (d, [start_first]))
      else (d, [''Usage: /idea Your business idea description'']))"

definition valid_phases :: "string list" where
  "valid_phases = [''planning'', ''validation'', ''mvp'', ''traction'']"

definition set_phase :: "db \<Rightarrow> update \<Rightarrow> string list \<Rightarrow> db \<times> string list" where
  "set_phase d upd args =
     (case args of
        [] \<Rightarrow> (d, [''Usage: /phase [planning|validation|mvp|traction]''])
      | arg0 # _ \<Rightarrow>
          (let phase = lower arg0 in
           if phase \<in> set valid_phases then
             (case query_user d (tg_id (effective_user upd)) of
                Some _ \<Rightarrow>
                  (d\<lparr>users := update_first (\<lambda>u. telegram_id u = tg_id (effective_user upd))
                                 (\<lambda>u. u\<lparr>execution_phase := phase\<rparr>) (users d)\<rparr>,
                   [emoji_bars @ '' Execution phase set to: '' @ upper phase @ nl @ nl
                    @ ''Great! Now I can give you phase-specific coaching. What are you working on today?''])
              | None \<Rightarrow> (d, [start_first]))
           else (d, [''Valid phases: '' @ join '', '' valid_phases])))"

subsection \<open>The scheduled sweeps\<close>

text \<open>\<^verbatim>\<open>self.app.bot.send_message(chat_id, text)\<close> either delivers or raises; the second
  case carries the text of the exception. What a sweep did is the list of its per-user
  outcomes, in the order of the loop.\<close>

datatype send_result = Sent | SendFailed string

datatype sweep_event = Delivered int string | FailureLogged int string

definition active_users :: "db \<Rightarrow> clock \<Rightarrow> user list" where
  "active_users d clk =
     (let week_ago = utcnow clk - timedelta_days 7
      in filter (\<lambda>u. last_active u > week_ago) (users d))"

text \<open>\<^verbatim>\<open>context_data[key]\<close> raises KeyError on a missing key.\<close>

definition checkin_msg :: "user \<Rightarrow> context_data \<Rightarrow> string + string" where
  "checkin_msg usr context_data =
     (case context_data ''current_streak'' of
        None \<Rightarrow> Inl ''KeyError: current_streak''
      | Some streak_v \<Rightarrow>
          (case context_data ''execution_phase'' of
             None \<Rightarrow> Inl ''KeyError: execution_phase''
           | Some phase_v \<Rightarrow>
               (let streak = (case streak_v of VInt n \<Rightarrow> str_int n | _ \<Rightarrow> []);
                    phase = (case phase_v of VStr p \<Rightarrow> p | _ \<Rightarrow> [])
                in Inr (nl @ emoji_sunrise @ '' **Daily Check-in Time!** '' @ nl @
                        nl @
                        ''Hey '' @ str_opt (first_name usr) @ ''! '' @ nl @
                        nl @
                        ''Current streak: **'' @ streak @ '' days**'' @ nl @
                        ''Phase: **'' @ upper phase @ ''**'' @ nl @
                        nl @
                        ''What's your 5-minute action for today? Even tiny progress counts in the ''
                        @ phase @ '' phase!'' @ nl @
                        nl @
                        ''Reply with what you accomplished or use /stuck if you're feeling blocked. ''
                        @ emoji_muscle @ nl @
                        ''                    ''))))"

text \<open>The body of the inner \<^verbatim>\<open>try\<close> of \<^verbatim>\<open>daily_checkin\<close> for one user, with its
  \<^verbatim>\<open>except Exception\<close> handler: whatever is raised is printed and the loop goes on.\<close>

definition daily_checkin_one ::
  "(int \<Rightarrow> string \<Rightarrow> send_result) \<Rightarrow> db \<Rightarrow> clock \<Rightarrow> user \<Rightarrow> sweep_event" where
  "daily_checkin_one send_message d clk usr =
     (let user_ctx = new_user_context (telegram_id usr);
          (context_data, user_ctx1) = get_user_data d clk user_ctx
      in case checkin_msg usr context_data of
           Inl e \<Rightarrow> FailureLogged (telegram_id usr) e
         | Inr msg \<Rightarrow>
             (case send_message (telegram_id usr) msg of
                Sent \<Rightarrow> Delivered (telegram_id usr) msg
              | SendFailed e \<Rightarrow> FailureLogged (telegram_id usr) e))"

fun daily_checkin_loop ::
  "(int \<Rightarrow> string \<Rightarrow> send_result) \<Rightarrow> db \<Rightarrow> clock \<Rightarrow> user list \<Rightarrow> sweep_event list" where
  "daily_checkin_loop send_message d clk [] = []"
| "daily_checkin_loop send_message d clk (usr # rest) =
     daily_checkin_one send_message d clk usr # daily_checkin_loop send_message d clk rest"

definition daily_checkin ::
  "(int \<Rightarrow> string \<Rightarrow> send_result) \<Rightarrow> db \<Rightarrow> clock \<Rightarrow> sweep_event list" where
  "daily_checkin send_message d clk = daily_checkin_loop send_message d clk (active_users d clk)"

definition weekly_text :: string where
  "weekly_text =
     emoji_calendar @ '' **Weekly Planning Time!**'' @ nl @ nl
     @ ''Use /plan to set up your week for execution success! '' @ emoji_rocket"

definition weekly_reminder_one :: "(int \<Rightarrow> string \<Rightarrow> send_result) \<Rightarrow> user \<Rightarrow> sweep_event" where
  "weekly_reminder_one send_message usr =
     (case send_message (telegram_id usr) weekly_text of
        Sent \<Rightarrow> Delivered (telegram_id usr) weekly_text
      | SendFailed e \<Rightarrow> FailureLogged (telegram_id usr) e)"

fun weekly_reminder_loop ::
  "(int \<Rightarrow> string \<Rightarrow> send_result) \<Rightarrow> user list \<Rightarrow> sweep_event list" where
  "weekly_reminder_loop send_message [] = []"
| "weekly_reminder_loop send_message (usr # rest) =
     weekly_reminder_one send_message usr # weekly_reminder_loop send_message rest"

definition weekly_planning_reminder ::
  "(int \<Rightarrow> string \<Rightarrow> send_result) \<Rightarrow> db \<Rightarrow> clock \<Rightarrow> sweep_event list" where
  "weekly_planning_reminder send_message d clk =
     weekly_reminder_loop send_message (active_users d clk)"

section \<open>Specification-side definitions and example stores\<close>

text \<open>The notions the specification uses that the code has no name for, and the concrete
  stores, clocks and coaches on which the theorems below are run.\<close>

definition streak_example_db :: db where
  "streak_example_db =
     \<lparr>users = [],
      goals = [],
      activities =
        [\<lparr>a_id = 1, a_user_id = 7, goal_id = None, description = ''sketch'',
          activity_type = ''planning'', timestamp = 96 * 86400000000 + 5, mood_score = None,
          a_notes = None, context_tags = None\<rparr>,
         \<lparr>a_id = 2, a_user_id = 7, goal_id = None, description = ''call'',
          activity_type = ''task_completed'', timestamp = 98 * 86400000000 + 7, mood_score = None,
          a_notes = None, context_tags = None\<rparr>,
         \<lparr>a_id = 3, a_user_id = 8, goal_id = None, description = ''other user'',
          activity_type = ''win'', timestamp = 97 * 86400000000, mood_score = None,
          a_notes = None, context_tags = None\<rparr>,
         \<lparr>a_id = 4, a_user_id = 7, goal_id = None, description = ''demo'',
          activity_type = ''win'', timestamp = 99 * 86400000000 + 1, mood_score = Some 4,
          a_notes = None, context_tags = None\<rparr>,
         \<lparr>a_id = 5, a_user_id = 7, goal_id = None, description = ''ship'',
          activity_type = ''win'', timestamp = 100 * 86400000000 + 3600000000, mood_score = Some 4,
          a_notes = None, context_tags = None\<rparr>,
         \<lparr>a_id = 6, a_user_id = 7, goal_id = None, description = ''ship again'',
          activity_type = ''win'', timestamp = 100 * 86400000000 + 3700000000, mood_score = Some 4,
          a_notes = None, context_tags = None\<rparr>],
      progress_rows = [],
      conversations = []\<rparr>"

definition streak_example_clock :: clock where
  "streak_example_clock = \<lparr>utcnow = 100 * 86400000000 + 4000000000, localnow = 100 * 86400000000 + 4000000000\<rparr>"

text \<open>The fallback classifier as the specification words it: four buckets in priority
  order, the first one that matches wins.\<close>

datatype bucket = Procrastination | Impatience | Celebration | General

fun bucket_matches :: "bucket \<Rightarrow> string \<Rightarrow> bool" where
  "bucket_matches Procrastination message_lower = any_word_in procrastination_words message_lower"
| "bucket_matches Impatience message_lower = any_word_in impatience_words message_lower"
| "bucket_matches Celebration message_lower = any_word_in celebration_words message_lower"
| "bucket_matches General message_lower = True"

definition spec_fallback_bucket :: "string \<Rightarrow> bucket" where
  "spec_fallback_bucket message =
     (case find (\<lambda>b. bucket_matches b (lower message))
                [Procrastination, Impatience, Celebration, General] of
        Some b \<Rightarrow> b
      | None \<Rightarrow> General)"

fun bucket_reply :: "bucket \<Rightarrow> user option \<Rightarrow> int \<Rightarrow> string \<Rightarrow> string" where
  "bucket_reply Procrastination usr streak phase = procrastination_reply usr streak phase"
| "bucket_reply Impatience usr streak phase = impatience_reply streak phase"
| "bucket_reply Celebration usr streak phase = celebration_reply streak phase"
| "bucket_reply General usr streak phase = general_reply usr streak phase"

definition stuck_and_slow :: string where
  "stuck_and_slow = ''I am STUCK and everything is so slow''"

text \<open>The same with U+212A KELVIN SIGN for the last letter of \<open>stuck\<close>.\<close>

definition stuck_kelvin_and_slow :: string where
  "stuck_kelvin_and_slow = ''I am stuc'' @ kelvin_sign @ '' and it is slow''"

definition stuck_kelvin :: string where
  "stuck_kelvin = ''STUC'' @ kelvin_sign"

definition coach_disabled :: gemini_coach where
  "coach_disabled =
     \<lparr>api_key = None, enabled = False, model = None,
      business_ideas_prompt = ''# Creative Business Ideas Agent'',
      market_research_prompt = ''# Market Research & Analysis Agent'',
      execution_coach_prompt = ''# Solo Entrepreneur Execution Coach''\<rparr>"

text \<open>The context-tag classifier as the specification words it: five independent
  checks, each a tag with its keyword list, and the result the set of tags whose check
  matches.\<close>

definition tag_checks :: "(string \<times> string list) list" where
  "tag_checks =
     [(''procrastination'', tag_procrastination_words),
      (''impatience'', tag_impatience_words),
      (''win'', tag_win_words),
      (''customer_related'', tag_customer_words),
      (''financial'', tag_financial_words)]"

definition spec_classify_with :: "(string \<times> string list) list \<Rightarrow> string \<Rightarrow> string set" where
  "spec_classify_with checks message =
     fst ` set (filter (\<lambda>(tag, ws). any_word_in ws (lower message)) checks)"

definition stuck_and_win :: string where
  "stuck_and_win = ''Stuck on pricing all week, but one small WIN today''"

definition plain_message :: string where
  "plain_message = ''Good morning coach''"

fun event_user :: "sweep_event \<Rightarrow> int" where
  "event_user (Delivered uid msg) = uid"
| "event_user (FailureLogged uid e) = uid"

fun is_delivered :: "sweep_event \<Rightarrow> bool" where
  "is_delivered (Delivered uid msg) = True"
| "is_delivered (FailureLogged uid e) = False"

text \<open>What the send outcome for one user turns into.\<close>

definition outcome_event :: "(int \<Rightarrow> string \<Rightarrow> send_result) \<Rightarrow> int \<Rightarrow> string \<Rightarrow> sweep_event" where
  "outcome_event send_message uid msg =
     (case send_message uid msg of
        Sent \<Rightarrow> Delivered uid msg
      | SendFailed e \<Rightarrow> FailureLogged uid e)"

definition example_user :: "nat \<Rightarrow> int \<Rightarrow> string \<Rightarrow> datetime \<Rightarrow> user" where
  "example_user n tid name active =
     \<lparr>u_id = n, telegram_id = tid, username = None, first_name = Some name,
      current_business_idea = None, execution_phase = ''planning'', created_at = 0,
      timezone = ''UTC'', preferred_checkin_time = ''18:00'', total_activities = 0,
      last_active = active\<rparr>"

definition sweep_db :: db where
  "sweep_db =
     \<lparr>users = [example_user 1 101 ''Ada'' (99 * 86400000000),
               example_user 2 102 ''Bob'' (92 * 86400000000),
               example_user 3 103 ''Cyd'' (95 * 86400000000)],
      goals = [], activities = [], progress_rows = [], conversations = []\<rparr>"

definition sweep_clock :: clock where
  "sweep_clock = \<lparr>utcnow = 100 * 86400000000, localnow = 100 * 86400000000\<rparr>"

text \<open>A transport that fails for user 101 and delivers to everybody else.\<close>

definition send_fails_101 :: "int \<Rightarrow> string \<Rightarrow> send_result" where
  "send_fails_101 uid msg = (if uid = 101 then SendFailed ''Forbidden: bot was blocked'' else Sent)"

text \<open>A process running five hours behind UTC, half an hour after UTC midnight: the UTC
  date is day 101, the process-local date is still day 100.\<close>

definition clock_behind_utc :: clock where
  "clock_behind_utc =
     \<lparr>utcnow = 101 * 86400000000 + 1800000000, localnow = 100 * 86400000000 + 70200000000\<rparr>"

text \<open>User 7 logged one activity earlier on UTC day 100.\<close>

definition one_activity_db :: db where
  "one_activity_db =
     \<lparr>users = [example_user 1 7 ''Ada'' (100 * 86400000000 + 50000000000)],
      goals = [],
      activities =
        [\<lparr>a_id = 1, a_user_id = 7, goal_id = None, description = ''first call'',
          activity_type = ''task_completed'', timestamp = 100 * 86400000000 + 50000000000,
          mood_score = None, a_notes = None, context_tags = None\<rparr>],
      progress_rows = [], conversations = []\<rparr>"

definition empty_db :: db where
  "empty_db = \<lparr>users = [], goals = [], activities = [], progress_rows = [], conversations = []\<rparr>"

definition upd_from_7 :: update where
  "upd_from_7 =
     \<lparr>effective_user = \<lparr>tg_id = 7, tg_username = None, tg_first_name = ''Ada''\<rparr>,
      text_in = ''hello''\<rparr>"

text \<open>The identities that have a User row, and the soft-reference invariant of the data
  model: every Goal, Activity, Progress and Conversation row names one of them.\<close>

definition user_ids :: "db \<Rightarrow> int set" where
  "user_ids d = set (map telegram_id (users d))"

definition refs_ok :: "db \<Rightarrow> bool" where
  "refs_ok d =
     (list_all (\<lambda>g. g_user_id g \<in> user_ids d) (goals d)
      \<and> list_all (\<lambda>a. a_user_id a \<in> user_ids d) (activities d)
      \<and> list_all (\<lambda>p. p_user_id p \<in> user_ids d) (progress_rows d)
      \<and> list_all (\<lambda>c. c_user_id c \<in> user_ids d) (conversations d))"



text \<open>The outcomes of a generation call after which \<^verbatim>\<open>generate_response\<close> degrades to the
  fallback: an exception, no response, no text, or an empty text.\<close>

fun gen_fails :: "gen_outcome \<Rightarrow> bool" where
  "gen_fails (GenError e) = True"
| "gen_fails GenNone = True"
| "gen_fails (GenText None) = True"
| "gen_fails (GenText (Some t)) = (t = [])"

definition falls_back :: "gemini_coach \<Rightarrow> string \<Rightarrow> context_data \<Rightarrow> bool" where
  "falls_back coach message cd =
     (if enabled coach
      then gen_fails (generate_content coach (create_coaching_prompt coach message cd))
      else True)"

text \<open>A coach with a credential whose every generation call raises a service error.\<close>

definition coach_failing :: gemini_coach where
  "coach_failing =
     \<lparr>api_key = Some ''key'', enabled = True,
      model = Some (\<lambda>prompt. GenError ''503 Service Unavailable''),
      business_ideas_prompt = ''# Creative Business Ideas Agent'',
      market_research_prompt = ''# Market Research & Analysis Agent'',
      execution_coach_prompt = ''# Solo Entrepreneur Execution Coach''\<rparr>"

definition landing_page_args :: "string list" where
  "landing_page_args = [''Launched'', ''landing'', ''page'']"

definition avoiding_args :: "string list" where
  "avoiding_args = [''Finally'', ''stopped'', ''avoiding'', ''the'', ''launch'']"

text \<open>User 7 has sent \<^verbatim>\<open>/start\<close> and nothing else.\<close>

definition started_db :: db where
  "started_db =
     \<lparr>users = [example_user 1 7 ''Ada'' (100 * 86400000000)],
      goals = [], activities = [], progress_rows = [], conversations = []\<rparr>"

section \<open>Properties\<close>

subsection \<open>The streak\<close>

lemma streak_loop_run:
  "\<exists>n. streak_loop D c s = s + n \<and> (\<forall>i<n. c - int i |\<in>| D) \<and> c - int n |\<notin>| D"
proof (induction D c s rule: streak_loop.induct)
  case (1 D c s)
  show ?case
  proof (cases "c |\<in>| D")
    case False
    then have "streak_loop D c s = s + 0 \<and> (\<forall>i<0::nat. c - int i |\<in>| D) \<and> c - int 0 |\<notin>| D"
      by (simp add: streak_loop.simps [of D c s])
    then show ?thesis by blast
  next
    case True
    from "1.IH" [OF True] obtain m where
      m: "streak_loop D (c - 1) (s + 1) = s + 1 + m"
         "\<forall>i<m. c - 1 - int i |\<in>| D" "c - 1 - int m |\<notin>| D"
      by blast
    have run: "\<forall>i<Suc m. c - int i |\<in>| D"
    proof (intro allI impI)
      fix i assume "i < Suc m"
      show "c - int i |\<in>| D"
      proof (cases i)
        case 0
        then show ?thesis using True by simp
      next
        case (Suc j)
        then have "j < m" using \<open>i < Suc m\<close> by simp
        then have "c - 1 - int j |\<in>| D" using m(2) by blast
        moreover have "c - 1 - int j = c - int i" using Suc by simp
        ultimately show ?thesis by simp
      qed
    qed
    have stop: "c - int (Suc m) |\<notin>| D"
    proof -
      have "c - int (Suc m) = c - 1 - int m" by simp
      then show ?thesis using m(3) by (simp only:) simp
    qed
    have "streak_loop D c s = s + Suc m"
      using True m(1) by (simp add: streak_loop.simps [of D c s])
    then show ?thesis using run stop by blast
  qed
qed

lemma fset_fold_finsert:
  "fset (fold (\<lambda>a s. finsert (f a) s) xs S) = f ` set xs \<union> fset S"
  by (induction xs arbitrary: S) auto

lemma fset_collect_dates:
  "fset (collect_dates (activities_desc d uid)) = activity_dates_of d uid"
  by (simp add: collect_dates_def activities_desc_def activity_dates_of_def fset_fold_finsert)

lemma activities_desc_Nil:
  "activities_desc d uid = [] \<Longrightarrow> activity_dates_of d uid = {}"
proof -
  assume "activities_desc d uid = []"
  then have "set (activities_desc d uid) = {}" by simp
  then have "filter (\<lambda>a. a_user_id a = uid) (activities d) = []"
    by (simp add: activities_desc_def)
  then show ?thesis by (simp add: activity_dates_of_def)
qed

lemma calculate_streak_run:
  "(\<forall>i<calculate_streak d clk self.
       date_of (localnow clk) - int i \<in> activity_dates_of d (uc_user_id self))
   \<and> date_of (localnow clk) - int (calculate_streak d clk self)
         \<notin> activity_dates_of d (uc_user_id self)"
proof (cases "activities_desc d (uc_user_id self) = []")
  case True
  then show ?thesis
    by (simp add: calculate_streak_def activities_desc_Nil)
next
  case False
  obtain n where n:
    "streak_loop (collect_dates (activities_desc d (uc_user_id self))) (date_of (localnow clk)) 0 = 0 + n"
    "\<forall>i<n. date_of (localnow clk) - int i |\<in>| collect_dates (activities_desc d (uc_user_id self))"
    "date_of (localnow clk) - int n |\<notin>| collect_dates (activities_desc d (uc_user_id self))"
    using streak_loop_run by blast
  have "calculate_streak d clk self = n"
    using False n(1) by (simp add: calculate_streak_def Let_def)
  then show ?thesis
    using n(2,3) by (simp add: fset_collect_dates)
qed

text \<open>
  Claim C1. \<^verbatim>\<open>calculate_streak\<close> returns the length of the maximal run of consecutive
  calendar days that ends at today's (process-local) date and lies in the set of distinct
  dates of the user's activity timestamps: every day of the run is in the set and the day
  before the run is not. So the streak is 0 when today is absent, whatever the earlier
  history, at least 1 when today is present, and the dates
  \<open>{today, today - 1, today - 2, today - 4}\<close> give 3.
\<close>

theorem calculate_streak_maximal_suffix:
  fixes d :: db and clk :: clock and self :: user_context
  defines "today \<equiv> date_of (localnow clk)"
    and "dates \<equiv> activity_dates_of d (uc_user_id self)"
    and "streak \<equiv> calculate_streak d clk self"
  shows "(\<forall>i<streak. today - int i \<in> dates) \<and> today - int streak \<notin> dates
         \<and> (today \<notin> dates \<longrightarrow> streak = 0)
         \<and> (today \<in> dates \<longrightarrow> 1 \<le> streak)
         \<and> (dates = {today, today - 1, today - 2, today - 4} \<longrightarrow> streak = 3)"
proof -
  have run: "\<forall>i<streak. today - int i \<in> dates"
    and stop: "today - int streak \<notin> dates"
    using calculate_streak_run [of d clk self]
    by (simp_all add: today_def dates_def streak_def)
  have absent: "today \<notin> dates \<longrightarrow> streak = 0"
  proof
    assume a: "today \<notin> dates"
    show "streak = 0"
    proof (rule ccontr)
      assume "streak \<noteq> 0"
      then have "0 < streak" by simp
      then have "today - int 0 \<in> dates" using run by blast
      then show False using a by simp
    qed
  qed
  have present: "today \<in> dates \<longrightarrow> 1 \<le> streak"
  proof
    assume a: "today \<in> dates"
    show "1 \<le> streak"
    proof (rule ccontr)
      assume "\<not> 1 \<le> streak"
      then have "streak = 0" by simp
      then show False using stop a by simp
    qed
  qed
  have gap: "dates = {today, today - 1, today - 2, today - 4} \<longrightarrow> streak = 3"
  proof
    assume ds: "dates = {today, today - 1, today - 2, today - 4}"
    have "streak \<noteq> 0" "streak \<noteq> 1" "streak \<noteq> 2"
      using stop ds by auto
    then have ge: "3 \<le> streak" by arith
    have "\<not> 3 < streak"
    proof
      assume "3 < streak"
      then have "today - int 3 \<in> dates" using run by blast
      then show False using ds by simp
    qed
    then show "streak = 3" using ge by simp
  qed
  show ?thesis using run stop absent present gap by blast
qed

theorem calculate_streak_maximal_suffix_witness:
  "calculate_streak streak_example_db streak_example_clock (new_user_context 7) = 3
   \<and> activity_dates_of streak_example_db 7 = {100, 99, 98, 96}
   \<and> calculate_streak streak_example_db streak_example_clock (new_user_context 8) = 0"
proof -
  have today: "date_of (localnow streak_example_clock) = 100"
    by (simp add: streak_example_clock_def date_of_def us_per_day_def)
  have dates: "activity_dates_of streak_example_db 7 = {100, 99, 98, 96}"
    by (auto simp add: activity_dates_of_def streak_example_db_def date_of_def us_per_day_def)
  have dates8: "activity_dates_of streak_example_db 8 = {97}"
    by (auto simp add: activity_dates_of_def streak_example_db_def date_of_def us_per_day_def)
  have "calculate_streak streak_example_db streak_example_clock (new_user_context 7) = 3"
    using calculate_streak_maximal_suffix [of streak_example_db streak_example_clock "new_user_context 7"]
    by (simp add: today dates new_user_context_def insert_commute)
  moreover have "calculate_streak streak_example_db streak_example_clock (new_user_context 8) = 0"
    using calculate_streak_maximal_suffix [of streak_example_db streak_example_clock "new_user_context 8"]
    by (simp add: today dates8 new_user_context_def)
  ultimately show ?thesis using dates by simp
qed

subsection \<open>The fallback buckets\<close>

lemma replies_distinct:
  "procrastination_reply u s p \<noteq> impatience_reply s' p'"
  "procrastination_reply u s p \<noteq> celebration_reply s' p'"
  "procrastination_reply u s p \<noteq> general_reply u' s' p'"
  "impatience_reply s p \<noteq> celebration_reply s' p'"
  "impatience_reply s p \<noteq> general_reply u' s' p'"
  "celebration_reply s p \<noteq> general_reply u' s' p'"
  by (simp_all add: procrastination_reply_def impatience_reply_def celebration_reply_def
        general_reply_def emoji_party_def)

lemma fallback_response_bucket:
  "fallback_response self message cd =
     bucket_reply (spec_fallback_bucket message) (ctx_user cd)
       (ctx_int cd ''current_streak'' 0) (ctx_str cd ''execution_phase'' ''planning'')"
  by (simp add: fallback_response_def spec_fallback_bucket_def Let_def)

lemma char_eq_char_of_iff: "c = char_of n \<longleftrightarrow> take_bit 8 n = (of_char c :: nat)"
  using char_of_eq_iff [of n c] by auto

lemma lower_kelvin:
  "lower stuck_kelvin_and_slow = ''i am stuck and it is slow''"
  "lower stuck_kelvin = ''stuck''"
  by (simp_all add: stuck_kelvin_and_slow_def stuck_kelvin_def kelvin_sign_def lower_char_def
        char_of_eq_iff char_eq_char_of_iff)

lemma stuck_and_slow_matches:
  "any_word_in procrastination_words (lower stuck_and_slow)"
  "any_word_in impatience_words (lower stuck_and_slow)"
  by (simp_all add: stuck_and_slow_def lower_char_def char_of_eq_iff char_eq_char_of_iff any_word_in_def
        procrastination_words_def impatience_words_def)


text \<open>
  Claim C4. \<^verbatim>\<open>fallback_response\<close> picks exactly one of four buckets, tried in the order
  procrastination, impatience, celebration, general, and answers with the template of the
  first bucket that matches; the four templates are pairwise different texts. A message
  with both a procrastination keyword (\<open>stuck\<close>) and an impatience keyword (\<open>slow\<close>) gets
  the procrastination template, not the impatience one.
\<close>

theorem fallback_response_priority:
  fixes self :: gemini_coach and message :: string and cd :: context_data
  defines "usr \<equiv> ctx_user cd"
    and "streak \<equiv> ctx_int cd ''current_streak'' 0"
    and "phase \<equiv> ctx_str cd ''execution_phase'' ''planning''"
    and "m \<equiv> lower message"
  shows "fallback_response self message cd
           = bucket_reply (spec_fallback_bucket message) usr streak phase
         \<and> (any_word_in procrastination_words m \<longrightarrow>
              fallback_response self message cd = procrastination_reply usr streak phase
              \<and> fallback_response self message cd \<noteq> impatience_reply streak phase)
         \<and> (\<not> any_word_in procrastination_words m \<and> any_word_in impatience_words m \<longrightarrow>
              fallback_response self message cd = impatience_reply streak phase)
         \<and> (\<not> any_word_in procrastination_words m \<and> \<not> any_word_in impatience_words m
              \<and> any_word_in celebration_words m \<longrightarrow>
              fallback_response self message cd = celebration_reply streak phase)
         \<and> (\<not> any_word_in procrastination_words m \<and> \<not> any_word_in impatience_words m
              \<and> \<not> any_word_in celebration_words m \<longrightarrow>
              fallback_response self message cd = general_reply usr streak phase)
         \<and> (\<forall>b b'. bucket_reply b usr streak phase = bucket_reply b' usr streak phase
                \<longrightarrow> b = b')
         \<and> fallback_response self stuck_and_slow cd = procrastination_reply usr streak phase"
proof -
  have refine: "fallback_response self message cd
                  = bucket_reply (spec_fallback_bucket message) usr streak phase"
    unfolding usr_def streak_def phase_def by (rule fallback_response_bucket)
  have first: "any_word_in procrastination_words m \<longrightarrow>
                 fallback_response self message cd = procrastination_reply usr streak phase
                 \<and> fallback_response self message cd \<noteq> impatience_reply streak phase"
    by (simp add: fallback_response_def Let_def usr_def streak_def phase_def m_def
          replies_distinct)
  have second: "\<not> any_word_in procrastination_words m \<and> any_word_in impatience_words m \<longrightarrow>
                  fallback_response self message cd = impatience_reply streak phase"
    by (simp add: fallback_response_def Let_def usr_def streak_def phase_def m_def)
  have third: "\<not> any_word_in procrastination_words m \<and> \<not> any_word_in impatience_words m
                 \<and> any_word_in celebration_words m \<longrightarrow>
                 fallback_response self message cd = celebration_reply streak phase"
    by (simp add: fallback_response_def Let_def usr_def streak_def phase_def m_def)
  have fourth: "\<not> any_word_in procrastination_words m \<and> \<not> any_word_in impatience_words m
                  \<and> \<not> any_word_in celebration_words m \<longrightarrow>
                  fallback_response self message cd = general_reply usr streak phase"
    by (simp add: fallback_response_def Let_def usr_def streak_def phase_def m_def)
  have exclusive: "\<forall>b b'. bucket_reply b usr streak phase = bucket_reply b' usr streak phase
                     \<longrightarrow> b = b'"
  proof (intro allI impI)
    fix b b' assume eq: "bucket_reply b usr streak phase = bucket_reply b' usr streak phase"
    show "b = b'"
      using eq by (cases b; cases b') (simp_all add: replies_distinct replies_distinct [symmetric])
  qed
  have example: "fallback_response self stuck_and_slow cd = procrastination_reply usr streak phase"
    by (simp add: fallback_response_def Let_def usr_def streak_def phase_def
          stuck_and_slow_matches)
  show ?thesis using refine first second third fourth exclusive example by blast
qed

theorem fallback_response_priority_witness:
  "any_word_in procrastination_words (lower stuck_and_slow)
   \<and> any_word_in impatience_words (lower stuck_and_slow)
   \<and> spec_fallback_bucket stuck_and_slow = Procrastination
   \<and> fallback_response coach_disabled stuck_and_slow Map.empty
        = procrastination_reply None 0 ''planning''
   \<and> fallback_response coach_disabled stuck_and_slow Map.empty \<noteq> impatience_reply 0 ''planning''
   \<and> fallback_response coach_disabled stuck_kelvin_and_slow Map.empty
        = procrastination_reply None 0 ''planning''"
proof -
  have ctx: "ctx_user Map.empty = None" "ctx_int Map.empty ''current_streak'' 0 = 0"
    "ctx_str Map.empty ''execution_phase'' ''planning'' = ''planning''"
    by (simp_all add: ctx_user_def ctx_int_def ctx_str_def)
  have b: "spec_fallback_bucket stuck_and_slow = Procrastination"
    by (simp add: spec_fallback_bucket_def stuck_and_slow_matches)
  have k: "any_word_in procrastination_words (lower stuck_kelvin_and_slow)"
    by (simp add: lower_kelvin any_word_in_def procrastination_words_def)
  have kelvin: "fallback_response coach_disabled stuck_kelvin_and_slow Map.empty
                  = procrastination_reply None 0 ''planning''"
    using fallback_response_priority [of coach_disabled stuck_kelvin_and_slow Map.empty,
        unfolded ctx] k
    by blast
  have ascii: "fallback_response coach_disabled stuck_and_slow Map.empty
                 = procrastination_reply None 0 ''planning''
               \<and> fallback_response coach_disabled stuck_and_slow Map.empty
                 \<noteq> impatience_reply 0 ''planning''"
    using fallback_response_priority [of coach_disabled stuck_and_slow Map.empty,
        unfolded ctx] stuck_and_slow_matches
    by blast
  show ?thesis
    using stuck_and_slow_matches b kelvin ascii by blast
qed

subsection \<open>The context tags\<close>

lemma message_tags_append:
  "message_tags message =
     (if any_word_in tag_procrastination_words (lower message) then [''procrastination''] else [])
     @ (if any_word_in tag_impatience_words (lower message) then [''impatience''] else [])
     @ (if any_word_in tag_win_words (lower message) then [''win''] else [])
     @ (if any_word_in tag_customer_words (lower message) then [''customer_related''] else [])
     @ (if any_word_in tag_financial_words (lower message) then [''financial''] else [])"
  by (simp add: message_tags_def Let_def)

lemma set_message_tags:
  "set (message_tags message) = spec_classify_with tag_checks message"
  by (simp add: message_tags_append spec_classify_with_def tag_checks_def)

lemma spec_classify_with_set:
  "set checks = set checks' \<Longrightarrow> spec_classify_with checks message = spec_classify_with checks' message"
  by (simp add: spec_classify_with_def)

lemma lower_stuck_and_win:
  "lower stuck_and_win = ''stuck on pricing all week, but one small win today''"
  by (simp add: stuck_and_win_def lower_char_def char_of_eq_iff char_eq_char_of_iff)

lemma lower_plain_message: "lower plain_message = ''good morning coach''"
  by (simp add: plain_message_def lower_char_def char_of_eq_iff char_eq_char_of_iff)

lemma message_tags_stuck_and_win: "message_tags stuck_and_win = [''procrastination'', ''win'']"
  by (simp add: message_tags_append lower_stuck_and_win any_word_in_def
        tag_procrastination_words_def tag_impatience_words_def tag_win_words_def
        tag_customer_words_def tag_financial_words_def)

lemma message_tags_plain: "message_tags plain_message = []"
  by (simp add: message_tags_append lower_plain_message any_word_in_def
        tag_procrastination_words_def tag_impatience_words_def tag_win_words_def
        tag_customer_words_def tag_financial_words_def)

text \<open>
  Claim C5. The context-tag classifier runs five independent keyword checks on the
  lower-cased message and returns every tag whose check matches: the tags it collects are
  exactly those of the matching checks, whatever the order the checks are listed in, each
  at most once. A message with both a procrastination and a win keyword gets both tags;
  a message that matches nothing gets the single tag \<open>general\<close>.
\<close>

theorem analyze_message_context_union:
  fixes message :: string
  defines "m \<equiv> lower message"
    and "tags \<equiv> message_tags message"
  shows "set tags = spec_classify_with tag_checks message
         \<and> (\<forall>checks. set checks = set tag_checks \<longrightarrow>
                spec_classify_with checks message = set tags)
         \<and> (''procrastination'' \<in> set tags \<longleftrightarrow> any_word_in tag_procrastination_words m)
         \<and> (''impatience'' \<in> set tags \<longleftrightarrow> any_word_in tag_impatience_words m)
         \<and> (''win'' \<in> set tags \<longleftrightarrow> any_word_in tag_win_words m)
         \<and> (''customer_related'' \<in> set tags \<longleftrightarrow> any_word_in tag_customer_words m)
         \<and> (''financial'' \<in> set tags \<longleftrightarrow> any_word_in tag_financial_words m)
         \<and> distinct tags
         \<and> (tags \<noteq> [] \<longrightarrow> analyze_message_context message = join '','' tags)
         \<and> (tags = [] \<longrightarrow> analyze_message_context message = ''general'')
         \<and> (any_word_in tag_procrastination_words m \<and> any_word_in tag_win_words m \<longrightarrow>
              {''procrastination'', ''win''} \<subseteq> set tags)"
proof -
  have spec: "set tags = spec_classify_with tag_checks message"
    unfolding tags_def by (rule set_message_tags)
  have order: "\<forall>checks. set checks = set tag_checks \<longrightarrow>
                 spec_classify_with checks message = set tags"
    using spec spec_classify_with_set by blast
  have p: "''procrastination'' \<in> set tags \<longleftrightarrow> any_word_in tag_procrastination_words m"
    by (simp add: tags_def m_def message_tags_append)
  have i: "''impatience'' \<in> set tags \<longleftrightarrow> any_word_in tag_impatience_words m"
    by (simp add: tags_def m_def message_tags_append)
  have w: "''win'' \<in> set tags \<longleftrightarrow> any_word_in tag_win_words m"
    by (simp add: tags_def m_def message_tags_append)
  have c: "''customer_related'' \<in> set tags \<longleftrightarrow> any_word_in tag_customer_words m"
    by (simp add: tags_def m_def message_tags_append)
  have f: "''financial'' \<in> set tags \<longleftrightarrow> any_word_in tag_financial_words m"
    by (simp add: tags_def m_def message_tags_append)
  have d: "distinct tags"
    by (simp add: tags_def message_tags_append)
  have j: "tags \<noteq> [] \<longrightarrow> analyze_message_context message = join '','' tags"
    by (simp add: tags_def analyze_message_context_def Let_def)
  have g: "tags = [] \<longrightarrow> analyze_message_context message = ''general''"
    by (simp add: tags_def analyze_message_context_def Let_def)
  have both: "any_word_in tag_procrastination_words m \<and> any_word_in tag_win_words m \<longrightarrow>
                {''procrastination'', ''win''} \<subseteq> set tags"
    using p w by simp
  show ?thesis using spec order p i w c f d j g both by blast
qed

theorem analyze_message_context_union_witness:
  "any_word_in tag_procrastination_words (lower stuck_and_win)
   \<and> any_word_in tag_win_words (lower stuck_and_win)
   \<and> analyze_message_context stuck_and_win = ''procrastination,win''
   \<and> set (message_tags stuck_and_win) = {''procrastination'', ''win''}
   \<and> analyze_message_context plain_message = ''general''
   \<and> analyze_message_context stuck_kelvin = ''procrastination''"
proof -
  have kw: "any_word_in tag_procrastination_words (lower stuck_and_win)"
    "any_word_in tag_win_words (lower stuck_and_win)"
    by (simp_all add: lower_stuck_and_win any_word_in_def tag_procrastination_words_def
          tag_win_words_def)
  have "analyze_message_context stuck_and_win = join '','' (message_tags stuck_and_win)"
    using analyze_message_context_union [of stuck_and_win]
    by (simp add: message_tags_stuck_and_win)
  then have a: "analyze_message_context stuck_and_win = ''procrastination,win''"
    by (simp add: message_tags_stuck_and_win)
  have b: "analyze_message_context plain_message = ''general''"
    using analyze_message_context_union [of plain_message]
    by (simp add: message_tags_plain)
  have tk: "message_tags stuck_kelvin = [''procrastination'']"
    by (simp add: message_tags_append lower_kelvin any_word_in_def
          tag_procrastination_words_def tag_impatience_words_def tag_win_words_def
          tag_customer_words_def tag_financial_words_def)
  have "analyze_message_context stuck_kelvin = join '','' (message_tags stuck_kelvin)"
    using analyze_message_context_union [of stuck_kelvin]
    by (simp add: tk)
  then have c: "analyze_message_context stuck_kelvin = ''procrastination''"
    by (simp add: tk)
  have s: "set (message_tags stuck_and_win) = {''procrastination'', ''win''}"
    by (simp add: message_tags_stuck_and_win)
  show ?thesis using kw a b c s by blast
qed

subsection \<open>The sweeps\<close>

lemma find_Some_of_mem: "x \<in> set xs \<Longrightarrow> P x \<Longrightarrow> \<exists>y. find P xs = Some y"
  by (induction xs) auto

lemma query_user_of_row:
  "u \<in> set (users d) \<Longrightarrow> \<exists>usr. query_user d (telegram_id u) = Some usr"
  unfolding query_user_def by (rule find_Some_of_mem [where x = u]) simp_all

lemma checkin_msg_build:
  "\<exists>msg. checkin_msg u (build_user_data d clk self usr) = Inr msg"
  by (simp add: checkin_msg_def build_user_data_def Let_def)

lemma daily_checkin_one_row:
  assumes "u \<in> set (users d)"
  shows "\<exists>msg. daily_checkin_one send_message d clk u = outcome_event send_message (telegram_id u) msg"
proof -
  obtain usr where usr: "query_user d (telegram_id u) = Some usr"
    using query_user_of_row [OF assms] by blast
  obtain msg where msg:
    "checkin_msg u (build_user_data d clk (new_user_context (telegram_id u)) usr) = Inr msg"
    using checkin_msg_build by blast
  have "daily_checkin_one send_message d clk u = outcome_event send_message (telegram_id u) msg"
    using usr msg
    by (simp add: daily_checkin_one_def get_user_data_def new_user_context_def Let_def
          outcome_event_def)
  then show ?thesis by blast
qed

lemma daily_checkin_loop_map:
  "daily_checkin_loop send_message d clk us = map (daily_checkin_one send_message d clk) us"
  by (induction us) simp_all

lemma weekly_reminder_loop_map:
  "weekly_reminder_loop send_message us = map (weekly_reminder_one send_message) us"
  by (induction us) simp_all

lemma weekly_reminder_one_outcome:
  "weekly_reminder_one send_message u = outcome_event send_message (telegram_id u) weekly_text"
  by (simp add: weekly_reminder_one_def outcome_event_def)

lemma event_user_outcome: "event_user (outcome_event send_message uid msg) = uid"
  by (simp add: outcome_event_def split: send_result.split)

lemma active_users_filter:
  "active_users d clk = filter (\<lambda>u. utcnow clk - 7 * us_per_day < last_active u) (users d)"
  by (simp add: active_users_def timedelta_days_def Let_def)

text \<open>
  Claim C9. The daily check-in and the weekly reminder sweeps visit exactly the users whose
  \<^verbatim>\<open>last_active\<close> lies within the last 7 days, each once and in the order of the query.
  Whatever the pattern of send failures, every such user gets an outcome of its own: the
  message is delivered when the send succeeds, and the failure is logged when it raises;
  no failure stops the loop.
\<close>

theorem sweeps_visit_every_active_user:
  fixes send_message :: "int \<Rightarrow> string \<Rightarrow> send_result" and d :: db and clk :: clock
  defines "recent \<equiv> filter (\<lambda>u. utcnow clk - 7 * us_per_day < last_active u) (users d)"
  shows "map event_user (daily_checkin send_message d clk) = map telegram_id recent
         \<and> map event_user (weekly_planning_reminder send_message d clk) = map telegram_id recent
         \<and> (\<forall>i<length recent.
               \<exists>msg. daily_checkin send_message d clk ! i
                        = outcome_event send_message (telegram_id (recent ! i)) msg)
         \<and> (\<forall>i<length recent.
               weekly_planning_reminder send_message d clk ! i
                 = outcome_event send_message (telegram_id (recent ! i)) weekly_text)"
proof -
  have act: "active_users d clk = recent"
    by (simp add: active_users_filter recent_def)
  have rows: "\<And>u. u \<in> set recent \<Longrightarrow> u \<in> set (users d)"
    by (simp add: recent_def)
  have daily_i: "\<forall>i<length recent.
                   \<exists>msg. daily_checkin send_message d clk ! i
                            = outcome_event send_message (telegram_id (recent ! i)) msg"
  proof (intro allI impI)
    fix i assume i: "i < length recent"
    then have "recent ! i \<in> set (users d)" using rows by simp
    then obtain msg where
      "daily_checkin_one send_message d clk (recent ! i)
         = outcome_event send_message (telegram_id (recent ! i)) msg"
      using daily_checkin_one_row by blast
    then have "daily_checkin send_message d clk ! i
                 = outcome_event send_message (telegram_id (recent ! i)) msg"
      using i by (simp add: daily_checkin_def act daily_checkin_loop_map)
    then show "\<exists>msg. daily_checkin send_message d clk ! i
                        = outcome_event send_message (telegram_id (recent ! i)) msg"
      by blast
  qed
  have len: "length (daily_checkin send_message d clk) = length recent"
    by (simp add: daily_checkin_def act daily_checkin_loop_map)
  have daily_users: "map event_user (daily_checkin send_message d clk) = map telegram_id recent"
  proof (rule nth_equalityI)
    show "length (map event_user (daily_checkin send_message d clk)) = length (map telegram_id recent)"
      using len by simp
  next
    fix i assume "i < length (map event_user (daily_checkin send_message d clk))"
    then have i: "i < length recent" using len by simp
    then obtain msg where
      "daily_checkin send_message d clk ! i = outcome_event send_message (telegram_id (recent ! i)) msg"
      using daily_i by blast
    then show "map event_user (daily_checkin send_message d clk) ! i = map telegram_id recent ! i"
      using i len by (simp add: event_user_outcome)
  qed
  have weekly_eq: "weekly_planning_reminder send_message d clk
                     = map (\<lambda>u. outcome_event send_message (telegram_id u) weekly_text) recent"
    by (simp add: weekly_planning_reminder_def act weekly_reminder_loop_map
          weekly_reminder_one_outcome)
  have weekly_users:
    "map event_user (weekly_planning_reminder send_message d clk) = map telegram_id recent"
    by (simp add: weekly_eq event_user_outcome comp_def)
  have weekly_i: "\<forall>i<length recent.
                    weekly_planning_reminder send_message d clk ! i
                      = outcome_event send_message (telegram_id (recent ! i)) weekly_text"
    by (simp add: weekly_eq)
  show ?thesis using daily_users weekly_users daily_i weekly_i by blast
qed

theorem sweeps_visit_every_active_user_witness:
  "map event_user (daily_checkin send_fails_101 sweep_db sweep_clock) = [101, 103]
   \<and> map is_delivered (daily_checkin send_fails_101 sweep_db sweep_clock) = [False, True]
   \<and> weekly_planning_reminder send_fails_101 sweep_db sweep_clock
        = [FailureLogged 101 ''Forbidden: bot was blocked'', Delivered 103 weekly_text]"
proof -
  let ?ada = "example_user 1 101 ''Ada'' (99 * 86400000000)"
  let ?cyd = "example_user 3 103 ''Cyd'' (95 * 86400000000)"
  let ?daily = "daily_checkin send_fails_101 sweep_db sweep_clock"
  let ?weekly = "weekly_planning_reminder send_fails_101 sweep_db sweep_clock"
  have recent:
    "filter (\<lambda>u. utcnow sweep_clock - 7 * us_per_day < last_active u) (users sweep_db)
       = [?ada, ?cyd]"
    by (simp add: sweep_db_def sweep_clock_def example_user_def us_per_day_def)
  note inst = sweeps_visit_every_active_user [of send_fails_101 sweep_db sweep_clock,
      unfolded recent]
  have tid: "telegram_id ?ada = 101" "telegram_id ?cyd = 103"
    by (simp_all add: example_user_def)
  have daily_users: "map event_user ?daily = [101, 103]"
    using inst [THEN conjunct1] by (simp only: tid list.map)
  have weekly_users: "map event_user ?weekly = [101, 103]"
    using inst [THEN conjunct2, THEN conjunct1] by (simp only: tid list.map)
  obtain m0 where d0: "?daily ! 0 = outcome_event send_fails_101 101 m0"
    using inst [THEN conjunct2, THEN conjunct2, THEN conjunct1, rule_format, of 0] tid
    by auto
  obtain m1 where d1: "?daily ! 1 = outcome_event send_fails_101 103 m1"
    using inst [THEN conjunct2, THEN conjunct2, THEN conjunct1, rule_format, of 1] tid
    by auto
  have w0: "?weekly ! 0 = outcome_event send_fails_101 101 weekly_text"
    using inst [THEN conjunct2, THEN conjunct2, THEN conjunct2, rule_format, of 0] tid
    by auto
  have w1: "?weekly ! 1 = outcome_event send_fails_101 103 weekly_text"
    using inst [THEN conjunct2, THEN conjunct2, THEN conjunct2, rule_format, of 1] tid
    by auto
  have "length ?daily = length [101, 103 :: int]"
    using daily_users by (metis length_map)
  then obtain a b where ab: "?daily = [a, b]"
    by (cases ?daily; cases "tl ?daily") auto
  have "length ?weekly = length [101, 103 :: int]"
    using weekly_users by (metis length_map)
  then obtain x y where xy: "?weekly = [x, y]"
    by (cases ?weekly; cases "tl ?weekly") auto
  have deliv: "map is_delivered ?daily = [False, True]"
    using ab d0 d1 by (simp add: outcome_event_def send_fails_101_def)
  have weekly: "?weekly = [FailureLogged 101 ''Forbidden: bot was blocked'', Delivered 103 weekly_text]"
    using xy w0 w1 by (simp add: outcome_event_def send_fails_101_def)
  show ?thesis using daily_users deliv weekly by simp
qed

subsection \<open>The streak right after logging\<close>

lemma activities_log_activity:
  "activities (fst (log_activity d clk self descr atype mood nts tags))
     = activities d @
       [\<lparr>a_id = length (activities d) + 1, a_user_id = uc_user_id self, goal_id = None,
         description = descr, activity_type = atype, timestamp = utcnow clk,
         mood_score = mood, a_notes = nts, context_tags = tags\<rparr>]"
  by (simp add: log_activity_def Let_def split: option.split)

lemma uc_user_id_log_activity:
  "uc_user_id (snd (log_activity d clk self descr atype mood nts tags)) = uc_user_id self"
  by (simp add: log_activity_def Let_def)

lemma activity_dates_log_activity:
  "activity_dates_of (fst (log_activity d clk self descr atype mood nts tags)) (uc_user_id self)
     = insert (date_of (utcnow clk)) (activity_dates_of d (uc_user_id self))"
  by (auto simp add: activity_dates_of_def activities_log_activity)

lemma calculate_streak_uid:
  "uc_user_id self' = uc_user_id self \<Longrightarrow> calculate_streak d clk self' = calculate_streak d clk self"
  by (simp add: calculate_streak_def)

lemma calculate_streak_pos_iff:
  "1 \<le> calculate_streak d clk self
     \<longleftrightarrow> date_of (localnow clk) \<in> activity_dates_of d (uc_user_id self)"
proof
  assume "1 \<le> calculate_streak d clk self"
  then have "0 < calculate_streak d clk self" by simp
  then have "date_of (localnow clk) - int 0 \<in> activity_dates_of d (uc_user_id self)"
    using calculate_streak_run [of d clk self] by blast
  then show "date_of (localnow clk) \<in> activity_dates_of d (uc_user_id self)" by simp
next
  assume today: "date_of (localnow clk) \<in> activity_dates_of d (uc_user_id self)"
  show "1 \<le> calculate_streak d clk self"
  proof (rule ccontr)
    assume "\<not> 1 \<le> calculate_streak d clk self"
    then have "calculate_streak d clk self = 0" by simp
    then have "date_of (localnow clk) \<notin> activity_dates_of d (uc_user_id self)"
      using calculate_streak_run [of d clk self] by simp
    then show False using today by simp
  qed
qed

text \<open>
  Claim C10, as stated, says that logging an activity and computing the streak right away
  gives a streak of at least 1 only when the process-local date equals the UTC date. That
  fails for a user who already has an activity stamped with the local date: here the two
  dates differ (UTC day 101, local day 100) and the streak after logging is still at
  least 1.
\<close>

theorem streak_after_log_counterexample:
  "date_of (localnow clock_behind_utc) \<noteq> date_of (utcnow clock_behind_utc)
   \<and> 1 \<le> calculate_streak
            (fst (log_activity one_activity_db clock_behind_utc (new_user_context 7)
                    ''second call'' ''task_completed'' None None None))
            clock_behind_utc
            (snd (log_activity one_activity_db clock_behind_utc (new_user_context 7)
                    ''second call'' ''task_completed'' None None None))"
proof -
  have dates: "date_of (localnow clock_behind_utc) = 100" "date_of (utcnow clock_behind_utc) = 101"
    by (simp_all add: clock_behind_utc_def date_of_def us_per_day_def)
  have old: "activity_dates_of one_activity_db 7 = {100}"
    by (simp add: activity_dates_of_def one_activity_db_def date_of_def us_per_day_def)
  have uid: "uc_user_id (new_user_context 7) = 7"
    by (simp add: new_user_context_def)
  have "date_of (localnow clock_behind_utc)
          \<in> activity_dates_of
              (fst (log_activity one_activity_db clock_behind_utc (new_user_context 7)
                      ''second call'' ''task_completed'' None None None))
              (uc_user_id (new_user_context 7))"
    using activity_dates_log_activity [of one_activity_db clock_behind_utc "new_user_context 7"
        "''second call''" "''task_completed''" None None None]
    by (simp add: uid old dates)
  then have "1 \<le> calculate_streak
            (fst (log_activity one_activity_db clock_behind_utc (new_user_context 7)
                    ''second call'' ''task_completed'' None None None))
            clock_behind_utc
            (snd (log_activity one_activity_db clock_behind_utc (new_user_context 7)
                    ''second call'' ''task_completed'' None None None))"
    by (simp only: calculate_streak_pos_iff uc_user_id_log_activity)
  then show ?thesis using dates by simp
qed

text \<open>
  Claim C10, amended. The new activity is stamped with the UTC date and the walk starts at
  the process-local date. When the two dates are equal, the streak computed right after
  logging is at least 1. When they differ, the activity just logged does not count as
  today: the streak is at least 1 exactly when an earlier activity of the user carries the
  local date, and it is 0 when none does.
\<close>

theorem streak_after_log_activity:
  fixes d :: db and clk :: clock and self :: user_context
    and descr :: string and atype :: string and mood :: "int option"
    and nts :: "string option" and tags :: "string option"
  defines "logged \<equiv> log_activity d clk self descr atype mood nts tags"
    and "today \<equiv> date_of (localnow clk)"
  shows "(today = date_of (utcnow clk) \<longrightarrow> 1 \<le> calculate_streak (fst logged) clk (snd logged))
         \<and> (today \<noteq> date_of (utcnow clk) \<longrightarrow>
               (1 \<le> calculate_streak (fst logged) clk (snd logged)
                  \<longleftrightarrow> today \<in> activity_dates_of d (uc_user_id self)))
         \<and> (today \<noteq> date_of (utcnow clk) \<and> today \<notin> activity_dates_of d (uc_user_id self) \<longrightarrow>
               calculate_streak (fst logged) clk (snd logged) = 0)"
proof -
  have pos: "1 \<le> calculate_streak (fst logged) clk (snd logged)
               \<longleftrightarrow> today \<in> insert (date_of (utcnow clk)) (activity_dates_of d (uc_user_id self))"
    unfolding logged_def today_def
    by (simp only: calculate_streak_pos_iff uc_user_id_log_activity activity_dates_log_activity)
  have zero: "calculate_streak (fst logged) clk (snd logged) = 0
                \<longleftrightarrow> \<not> 1 \<le> calculate_streak (fst logged) clk (snd logged)"
    by auto
  show ?thesis using pos zero by auto
qed

theorem streak_after_log_activity_witness:
  "calculate_streak
     (fst (log_activity empty_db clock_behind_utc (new_user_context 7)
             ''first call'' ''task_completed'' None None None))
     clock_behind_utc
     (snd (log_activity empty_db clock_behind_utc (new_user_context 7)
             ''first call'' ''task_completed'' None None None)) = 0
   \<and> 1 \<le> calculate_streak
            (fst (log_activity empty_db streak_example_clock (new_user_context 7)
                    ''first call'' ''task_completed'' None None None))
            streak_example_clock
            (snd (log_activity empty_db streak_example_clock (new_user_context 7)
                    ''first call'' ''task_completed'' None None None))"
proof -
  have dates: "date_of (localnow clock_behind_utc) = 100" "date_of (utcnow clock_behind_utc) = 101"
    by (simp_all add: clock_behind_utc_def date_of_def us_per_day_def)
  have same: "date_of (localnow streak_example_clock) = date_of (utcnow streak_example_clock)"
    by (simp add: streak_example_clock_def)
  have none: "activity_dates_of empty_db (uc_user_id (new_user_context 7)) = {}"
    by (simp add: activity_dates_of_def empty_db_def)
  have a: "calculate_streak
     (fst (log_activity empty_db clock_behind_utc (new_user_context 7)
             ''first call'' ''task_completed'' None None None))
     clock_behind_utc
     (snd (log_activity empty_db clock_behind_utc (new_user_context 7)
             ''first call'' ''task_completed'' None None None)) = 0"
    using streak_after_log_activity [where d = empty_db and clk = clock_behind_utc
        and self = "new_user_context 7" and descr = "''first call''"
        and atype = "''task_completed''" and mood = None and nts = None and tags = None]
    by (simp add: dates none)
  have b: "1 \<le> calculate_streak
            (fst (log_activity empty_db streak_example_clock (new_user_context 7)
                    ''first call'' ''task_completed'' None None None))
            streak_example_clock
            (snd (log_activity empty_db streak_example_clock (new_user_context 7)
                    ''first call'' ''task_completed'' None None None))"
    using streak_after_log_activity [where d = empty_db and clk = streak_example_clock
        and self = "new_user_context 7" and descr = "''first call''"
        and atype = "''task_completed''" and mood = None and nts = None and tags = None] same
    by simp
  show ?thesis using a b by simp
qed

subsection \<open>Aggregation without a User row\<close>

lemma get_user_data_no_user:
  "uc_user_data self = None \<Longrightarrow> query_user d (uc_user_id self) = None
     \<Longrightarrow> get_user_data d clk self = (Map.empty, self)"
  by (simp add: get_user_data_def)

lemma ctx_defaults_empty:
  "ctx_user Map.empty = None"
  "ctx_int Map.empty k n = n"
  "ctx_str Map.empty k s = s"
  "ctx_activities Map.empty = []"
  "ctx_goals Map.empty = []"
  by (simp_all add: ctx_user_def ctx_int_def ctx_str_def ctx_activities_def ctx_goals_def)

lemma query_user_empty_db: "query_user empty_db uid = None"
  by (simp add: query_user_def empty_db_def)

lemma handle_stuck_no_user:
  assumes "query_user d (tg_id (effective_user upd)) = None"
  shows "handle_stuck coach d clk upd
           = (fst (log_activity d clk (new_user_context (tg_id (effective_user upd)))
                     ''User reported feeling stuck'' ''blocker'' None None
                     (Some ''procrastination,stuck'')),
              [emoji_siren @ '' Stuck Alert Activated!'' @ nl @ nl
               @ generate_response coach unstuck_message Map.empty])"
proof -
  have g: "get_user_data d clk (new_user_context (tg_id (effective_user upd)))
             = (Map.empty, new_user_context (tg_id (effective_user upd)))"
    using assms by (simp add: get_user_data_no_user new_user_context_def)
  show ?thesis
    by (simp add: handle_stuck_def handle_stuck_parts_def Let_def g split_beta)
qed

lemma siren_not_start_first: "emoji_siren @ rest \<noteq> start_first"
  by (simp add: emoji_siren_def start_first_def)

text \<open>
  Claim C6, as stated, says that aggregation fails with NotFound when no User row exists
  and that the caller is told to initialise first. On the empty store
  \<^verbatim>\<open>get_user_data\<close> returns the empty dict, and \<^verbatim>\<open>/stuck\<close> goes on with it: it logs
  an Activity row for the unknown identity and answers with the stuck alert, addressed to
  \<open>friend\<close>.
\<close>

theorem get_user_data_not_found_counterexample:
  "get_user_data empty_db streak_example_clock (new_user_context 7)
     = (Map.empty, new_user_context 7)
   \<and> snd (handle_stuck coach_disabled empty_db streak_example_clock upd_from_7)
       = [emoji_siren @ '' Stuck Alert Activated!'' @ nl @ nl
          @ procrastination_reply None 0 ''planning'']
   \<and> snd (handle_stuck coach_disabled empty_db streak_example_clock upd_from_7) \<noteq> [start_first]
   \<and> length (activities (fst (handle_stuck coach_disabled empty_db streak_example_clock upd_from_7))) = 1"
proof -
  have uid: "tg_id (effective_user upd_from_7) = 7"
    by (simp add: upd_from_7_def)
  have a: "get_user_data empty_db streak_example_clock (new_user_context 7)
             = (Map.empty, new_user_context 7)"
    by (simp add: get_user_data_no_user new_user_context_def query_user_empty_db)
  have kw: "any_word_in procrastination_words (lower unstuck_message)"
    by (simp add: unstuck_message_def lower_char_def char_of_eq_iff
          char_eq_char_of_iff any_word_in_def procrastination_words_def)
  have resp: "generate_response coach_disabled unstuck_message Map.empty
                = procrastination_reply None 0 ''planning''"
    by (simp add: generate_response_def coach_disabled_def fallback_response_def Let_def kw
          ctx_defaults_empty)
  have h: "handle_stuck coach_disabled empty_db streak_example_clock upd_from_7
             = (fst (log_activity empty_db streak_example_clock (new_user_context 7)
                       ''User reported feeling stuck'' ''blocker'' None None
                       (Some ''procrastination,stuck'')),
                [emoji_siren @ '' Stuck Alert Activated!'' @ nl @ nl
                 @ procrastination_reply None 0 ''planning''])"
    using handle_stuck_no_user [of empty_db upd_from_7 coach_disabled streak_example_clock]
    by (simp add: uid query_user_empty_db resp)
  have len: "length (activities (fst (handle_stuck coach_disabled empty_db streak_example_clock upd_from_7))) = 1"
    by (simp only: h fst_conv activities_log_activity) (simp add: empty_db_def)
  have reply: "snd (handle_stuck coach_disabled empty_db streak_example_clock upd_from_7)
       = [emoji_siren @ '' Stuck Alert Activated!'' @ nl @ nl
          @ procrastination_reply None 0 ''planning'']"
    by (simp only: h snd_conv)
  have differs: "snd (handle_stuck coach_disabled empty_db streak_example_clock upd_from_7) \<noteq> [start_first]"
    by (simp only: reply) (simp add: siren_not_start_first)
  show ?thesis using a len reply differs by blast
qed

subsection \<open>Soft references\<close>

lemma map_telegram_id_update_first:
  "(\<And>u. telegram_id (f u) = telegram_id u)
     \<Longrightarrow> map telegram_id (update_first P f xs) = map telegram_id xs"
  by (induction xs) simp_all

lemma image_telegram_id_update_first:
  "(\<And>u. telegram_id (f u) = telegram_id u)
     \<Longrightarrow> telegram_id ` set (update_first P f xs) = telegram_id ` set xs"
  using map_telegram_id_update_first [of f P xs] by (metis set_map)

lemma find_Some_ex_iff: "(\<exists>y. find P xs = Some y) \<longleftrightarrow> (\<exists>x\<in>set xs. P x)"
  by (induction xs) auto

lemma query_user_Some_iff:
  "(\<exists>u. query_user d uid = Some u) \<longleftrightarrow> uid \<in> user_ids d"
  unfolding query_user_def user_ids_def find_Some_ex_iff by auto

lemma refs_ok_extend:
  assumes "refs_ok d"
    and "user_ids d \<subseteq> user_ids d'"
    and "set (goals d') \<subseteq> set (goals d) \<union> {g. g_user_id g \<in> user_ids d'}"
    and "set (activities d') \<subseteq> set (activities d) \<union> {a. a_user_id a \<in> user_ids d'}"
    and "progress_rows d' = progress_rows d"
    and "set (conversations d') \<subseteq> set (conversations d) \<union> {c. c_user_id c \<in> user_ids d'}"
  shows "refs_ok d'"
proof -
  have old: "\<forall>g\<in>set (goals d). g_user_id g \<in> user_ids d"
    "\<forall>a\<in>set (activities d). a_user_id a \<in> user_ids d"
    "\<forall>p\<in>set (progress_rows d). p_user_id p \<in> user_ids d"
    "\<forall>c\<in>set (conversations d). c_user_id c \<in> user_ids d"
    using assms(1) by (simp_all add: refs_ok_def list_all_iff)
  have g: "\<forall>g\<in>set (goals d'). g_user_id g \<in> user_ids d'"
  proof
    fix g assume "g \<in> set (goals d')"
    then have "g \<in> set (goals d) \<or> g_user_id g \<in> user_ids d'" using assms(3) by auto
    then show "g_user_id g \<in> user_ids d'" using old(1) assms(2) by auto
  qed
  have a: "\<forall>a\<in>set (activities d'). a_user_id a \<in> user_ids d'"
  proof
    fix a assume "a \<in> set (activities d')"
    then have "a \<in> set (activities d) \<or> a_user_id a \<in> user_ids d'" using assms(4) by auto
    then show "a_user_id a \<in> user_ids d'" using old(2) assms(2) by auto
  qed
  have p: "\<forall>p\<in>set (progress_rows d'). p_user_id p \<in> user_ids d'"
    using old(3) assms(2,5) by auto
  have c: "\<forall>c\<in>set (conversations d'). c_user_id c \<in> user_ids d'"
  proof
    fix c assume "c \<in> set (conversations d')"
    then have "c \<in> set (conversations d) \<or> c_user_id c \<in> user_ids d'" using assms(6) by auto
    then show "c_user_id c \<in> user_ids d'" using old(4) assms(2) by auto
  qed
  show ?thesis using g a p c by (simp add: refs_ok_def list_all_iff)
qed

lemma log_activity_tables:
  "user_ids (fst (log_activity d clk self descr atype mood nts tags)) = user_ids d"
  "goals (fst (log_activity d clk self descr atype mood nts tags)) = goals d"
  "progress_rows (fst (log_activity d clk self descr atype mood nts tags)) = progress_rows d"
  "conversations (fst (log_activity d clk self descr atype mood nts tags)) = conversations d"
  by (simp_all add: log_activity_def Let_def user_ids_def image_telegram_id_update_first
        split: option.split)

lemma refs_ok_log_activity:
  assumes "refs_ok d"
  shows "refs_ok (fst (log_activity d clk self descr atype mood nts tags))
           \<longleftrightarrow> uc_user_id self \<in> user_ids d"
proof
  assume ok: "refs_ok (fst (log_activity d clk self descr atype mood nts tags))"
  have "\<lparr>a_id = length (activities d) + 1, a_user_id = uc_user_id self, goal_id = None,
         description = descr, activity_type = atype, timestamp = utcnow clk,
         mood_score = mood, a_notes = nts, context_tags = tags\<rparr>
          \<in> set (activities (fst (log_activity d clk self descr atype mood nts tags)))"
    by (simp add: activities_log_activity)
  then have "uc_user_id self \<in> user_ids (fst (log_activity d clk self descr atype mood nts tags))"
    using ok unfolding refs_ok_def list_all_iff by fastforce
  then show "uc_user_id self \<in> user_ids d"
    by (simp add: log_activity_tables)
next
  assume "uc_user_id self \<in> user_ids d"
  then show "refs_ok (fst (log_activity d clk self descr atype mood nts tags))"
    by (intro refs_ok_extend [OF assms])
       (auto simp add: log_activity_tables activities_log_activity)
qed

lemma fst_log_activity_uid:
  "uc_user_id self' = uc_user_id self
     \<Longrightarrow> fst (log_activity d clk self' descr atype mood nts tags)
           = fst (log_activity d clk self descr atype mood nts tags)"
  unfolding log_activity_def Let_def by (simp only: fst_conv)

lemma uc_user_id_get_user_data:
  "uc_user_id (snd (get_user_data d clk self)) = uc_user_id self"
  by (simp add: get_user_data_def Let_def split: option.split)

lemma fst_handle_stuck:
  "fst (handle_stuck coach d clk upd)
     = fst (log_activity d clk (new_user_context (tg_id (effective_user upd)))
              ''User reported feeling stuck'' ''blocker'' None None
              (Some ''procrastination,stuck''))"
proof -
  have "fst (handle_stuck coach d clk upd)
          = fst (log_activity d clk
                   (snd (get_user_data d clk (new_user_context (tg_id (effective_user upd)))))
                   ''User reported feeling stuck'' ''blocker'' None None
                   (Some ''procrastination,stuck''))"
    by (simp add: handle_stuck_def handle_stuck_parts_def Let_def split_beta)
  then show ?thesis
    by (simp add: fst_log_activity_uid [OF uc_user_id_get_user_data])
qed

lemma fst_log_win:
  "fst (log_win coach d clk upd args)
     = fst (log_activity d clk (new_user_context (tg_id (effective_user upd)))
              (win_description args) ''win'' (Some 4) None (Some ''win,celebration''))"
  by (simp add: log_win_def log_win_parts_def Let_def split_beta)

lemma uc_user_id_new: "uc_user_id (new_user_context uid) = uid"
  by (simp add: new_user_context_def)

lemma refs_ok_set_goal:
  assumes "refs_ok d"
  shows "refs_ok (fst (set_goal d clk upd args))
           \<longleftrightarrow> args = [] \<or> tg_id (effective_user upd) \<in> user_ids d"
proof (cases "args = []")
  case True
  then show ?thesis using assms by (simp add: set_goal_def)
next
  case False
  let ?g = "\<lparr>g_id = length (goals d) + 1, g_user_id = tg_id (effective_user upd),
             title = join '' '' args, g_description = None, target_date = None,
             status = ''active'', g_created_at = utcnow clk,
             goal_type = Some ''general'', priority = 1\<rparr>"
  have d': "fst (set_goal d clk upd args) = d\<lparr>goals := goals d @ [?g]\<rparr>"
    using False by (simp add: set_goal_def Let_def)
  have "refs_ok (d\<lparr>goals := goals d @ [?g]\<rparr>) \<longleftrightarrow> tg_id (effective_user upd) \<in> user_ids d"
    using assms by (simp add: refs_ok_def user_ids_def)
  then show ?thesis using False by (simp add: d')
qed

lemma get_or_create_user_tables:
  "user_ids (fst (get_or_create_user d clk tu)) = insert (tg_id tu) (user_ids d)"
  "goals (fst (get_or_create_user d clk tu)) = goals d"
  "activities (fst (get_or_create_user d clk tu)) = activities d"
  "progress_rows (fst (get_or_create_user d clk tu)) = progress_rows d"
  "conversations (fst (get_or_create_user d clk tu)) = conversations d"
proof -
  show "user_ids (fst (get_or_create_user d clk tu)) = insert (tg_id tu) (user_ids d)"
  proof (cases "query_user d (tg_id tu)")
    case None
    then show ?thesis
      by (auto simp add: get_or_create_user_def Let_def user_ids_def)
  next
    case (Some u)
    then have "tg_id tu \<in> user_ids d" using query_user_Some_iff by blast
    then show ?thesis using Some
      by (auto simp add: get_or_create_user_def user_ids_def image_telegram_id_update_first)
  qed
qed (simp_all add: get_or_create_user_def Let_def split: option.split)

lemma refs_ok_get_or_create_user:
  "refs_ok d \<Longrightarrow> refs_ok (fst (get_or_create_user d clk tu))"
  by (rule refs_ok_extend [where d = d]) (auto simp add: get_or_create_user_tables)

lemma handle_message_tables:
  "users (fst (handle_message coach d clk upd))
     = users (fst (get_or_create_user d clk (effective_user upd)))"
  "goals (fst (handle_message coach d clk upd))
     = goals (fst (get_or_create_user d clk (effective_user upd)))"
  "activities (fst (handle_message coach d clk upd))
     = activities (fst (get_or_create_user d clk (effective_user upd)))"
  "progress_rows (fst (handle_message coach d clk upd))
     = progress_rows (fst (get_or_create_user d clk (effective_user upd)))"
  "set (conversations (fst (handle_message coach d clk upd)))
     \<subseteq> set (conversations (fst (get_or_create_user d clk (effective_user upd))))
         \<union> {c. c_user_id c = tg_id (effective_user upd)}"
  by (simp_all add: handle_message_def Let_def split_beta)

lemma refs_ok_handle_message:
  assumes "refs_ok d"
  shows "refs_ok (fst (handle_message coach d clk upd))"
proof (rule refs_ok_extend [where d = "fst (get_or_create_user d clk (effective_user upd))"])
  show "refs_ok (fst (get_or_create_user d clk (effective_user upd)))"
    using assms by (rule refs_ok_get_or_create_user)
  have ids: "user_ids (fst (handle_message coach d clk upd))
               = user_ids (fst (get_or_create_user d clk (effective_user upd)))"
    by (simp add: user_ids_def handle_message_tables)
  show "user_ids (fst (get_or_create_user d clk (effective_user upd)))
          \<subseteq> user_ids (fst (handle_message coach d clk upd))"
    by (simp add: ids)
  show "set (goals (fst (handle_message coach d clk upd)))
          \<subseteq> set (goals (fst (get_or_create_user d clk (effective_user upd))))
              \<union> {g. g_user_id g \<in> user_ids (fst (handle_message coach d clk upd))}"
    by (simp add: handle_message_tables)
  show "set (activities (fst (handle_message coach d clk upd)))
          \<subseteq> set (activities (fst (get_or_create_user d clk (effective_user upd))))
              \<union> {a. a_user_id a \<in> user_ids (fst (handle_message coach d clk upd))}"
    by (simp add: handle_message_tables)
  show "progress_rows (fst (handle_message coach d clk upd))
          = progress_rows (fst (get_or_create_user d clk (effective_user upd)))"
    by (simp add: handle_message_tables)
  have "tg_id (effective_user upd) \<in> user_ids (fst (handle_message coach d clk upd))"
    by (simp add: ids get_or_create_user_tables)
  then show "set (conversations (fst (handle_message coach d clk upd)))
          \<subseteq> set (conversations (fst (get_or_create_user d clk (effective_user upd))))
              \<union> {c. c_user_id c \<in> user_ids (fst (handle_message coach d clk upd))}"
    using handle_message_tables(5) [of coach d clk upd] by auto
qed

lemma refs_ok_set_business_idea:
  "refs_ok d \<Longrightarrow> refs_ok (fst (set_business_idea d upd args))"
  by (simp add: set_business_idea_def Let_def refs_ok_def user_ids_def
        image_telegram_id_update_first split: option.split)

lemma refs_ok_set_phase:
  "refs_ok d \<Longrightarrow> refs_ok (fst (set_phase d upd args))"
  by (simp add: set_phase_def Let_def refs_ok_def user_ids_def
        image_telegram_id_update_first split: option.split list.split)

lemma refs_ok_empty_db: "refs_ok empty_db"
  by (simp add: refs_ok_def empty_db_def)

lemma user_ids_empty_db: "user_ids empty_db = {}"
  by (simp add: user_ids_def empty_db_def)

text \<open>
  Claim C7, as stated, says that every reachable store has only rows whose user identity
  names an existing User row, and that \<^verbatim>\<open>set_goal\<close> and \<^verbatim>\<open>log_activity\<close> keep it so.
  From the empty store, which satisfies the invariant, \<^verbatim>\<open>/goal Launch\<close> sent by an
  identity that never sent \<^verbatim>\<open>/start\<close> leaves a Goal row without a User row, and so does
  \<^verbatim>\<open>log_activity\<close> with an Activity row.
\<close>

theorem soft_reference_counterexample:
  "refs_ok empty_db
   \<and> \<not> refs_ok (fst (set_goal empty_db streak_example_clock upd_from_7 [''Launch'']))
   \<and> \<not> refs_ok (fst (log_activity empty_db streak_example_clock (new_user_context 7)
                        ''User reported feeling stuck'' ''blocker'' None None
                        (Some ''procrastination,stuck'')))"
proof -
  have uid: "tg_id (effective_user upd_from_7) = 7"
    by (simp add: upd_from_7_def)
  have g: "\<not> refs_ok (fst (set_goal empty_db streak_example_clock upd_from_7 [''Launch'']))"
    by (simp add: refs_ok_set_goal [OF refs_ok_empty_db] uid user_ids_empty_db)
  have a: "\<not> refs_ok (fst (log_activity empty_db streak_example_clock (new_user_context 7)
                        ''User reported feeling stuck'' ''blocker'' None None
                        (Some ''procrastination,stuck'')))"
    by (simp add: refs_ok_log_activity [OF refs_ok_empty_db] uc_user_id_new user_ids_empty_db)
  show ?thesis using refs_ok_empty_db g a by blast
qed

text \<open>
  Claim C7, amended. The user identity of a row is a soft reference. Starting from a store
  where every row names an existing User row: \<^verbatim>\<open>set_goal\<close> (with an argument),
  \<^verbatim>\<open>log_activity\<close>, \<^verbatim>\<open>/stuck\<close> and \<^verbatim>\<open>/win\<close> keep the invariant exactly when the
  acting identity already has a User row, since they insert without looking the user up;
  \<^verbatim>\<open>handle_message\<close>, which creates the user first, and \<^verbatim>\<open>get_or_create_user\<close>,
  \<^verbatim>\<open>/idea\<close> and \<^verbatim>\<open>/phase\<close> keep it always.
\<close>

theorem soft_reference_preserved:
  assumes "refs_ok d"
  shows "(refs_ok (fst (set_goal d clk upd (arg # args)))
            \<longleftrightarrow> tg_id (effective_user upd) \<in> user_ids d)
         \<and> (refs_ok (fst (log_activity d clk self descr atype mood nts tags))
              \<longleftrightarrow> uc_user_id self \<in> user_ids d)
         \<and> (refs_ok (fst (handle_stuck coach d clk upd))
              \<longleftrightarrow> tg_id (effective_user upd) \<in> user_ids d)
         \<and> (refs_ok (fst (log_win coach d clk upd args))
              \<longleftrightarrow> tg_id (effective_user upd) \<in> user_ids d)
         \<and> refs_ok (fst (handle_message coach d clk upd))
         \<and> refs_ok (fst (get_or_create_user d clk tu))
         \<and> refs_ok (fst (set_business_idea d upd args))
         \<and> refs_ok (fst (set_phase d upd args))"
proof -
  have g: "refs_ok (fst (set_goal d clk upd (arg # args)))
             \<longleftrightarrow> tg_id (effective_user upd) \<in> user_ids d"
    by (simp add: refs_ok_set_goal [OF assms])
  have s: "refs_ok (fst (handle_stuck coach d clk upd))
             \<longleftrightarrow> tg_id (effective_user upd) \<in> user_ids d"
    by (simp add: fst_handle_stuck refs_ok_log_activity [OF assms] uc_user_id_new)
  have w: "refs_ok (fst (log_win coach d clk upd args))
             \<longleftrightarrow> tg_id (effective_user upd) \<in> user_ids d"
    by (simp add: fst_log_win refs_ok_log_activity [OF assms] uc_user_id_new)
  show ?thesis
    using g s w refs_ok_log_activity [OF assms] refs_ok_handle_message [OF assms]
      refs_ok_get_or_create_user [OF assms] refs_ok_set_business_idea [OF assms]
      refs_ok_set_phase [OF assms]
    by blast
qed

theorem soft_reference_preserved_witness:
  "refs_ok one_activity_db
   \<and> refs_ok (fst (set_goal one_activity_db streak_example_clock upd_from_7 [''Launch'']))
   \<and> refs_ok (fst (handle_message coach_disabled empty_db streak_example_clock upd_from_7))"
proof -
  have ok: "refs_ok one_activity_db"
    by (simp add: refs_ok_def one_activity_db_def user_ids_def example_user_def)
  have uid: "tg_id (effective_user upd_from_7) \<in> user_ids one_activity_db"
    by (simp add: upd_from_7_def one_activity_db_def user_ids_def example_user_def)
  have g: "refs_ok (fst (set_goal one_activity_db streak_example_clock upd_from_7 [''Launch'']))"
    using soft_reference_preserved [OF ok, of streak_example_clock upd_from_7 "''Launch''" "[]"] uid
    by blast
  have m: "refs_ok (fst (handle_message coach_disabled empty_db streak_example_clock upd_from_7))"
    using soft_reference_preserved [OF refs_ok_empty_db] by blast
  show ?thesis using ok g m by blast
qed

subsection \<open>Falling back\<close>

lemma generate_response_falls_back:
  "falls_back coach message cd
     \<Longrightarrow> generate_response coach message cd = fallback_response coach message cd"
  by (cases "generate_content coach (create_coaching_prompt coach message cd)" rule: gen_fails.cases)
     (simp_all add: generate_response_def falls_back_def split: if_splits)

lemma str_nat_not_Nil: "str_nat n \<noteq> []"
  by (induction n rule: str_nat.induct) (subst str_nat.simps, simp)

lemma fallback_response_not_Nil: "fallback_response coach message cd \<noteq> []"
  by (simp add: fallback_response_def Let_def procrastination_reply_def impatience_reply_def
        celebration_reply_def general_reply_def emoji_party_def)

lemma starts_with_append: "starts_with w xs \<Longrightarrow> starts_with w (xs @ ys)"
  by (induction w xs rule: starts_with.induct) simp_all

lemma str_in_append_left: "str_in w xs \<Longrightarrow> w \<noteq> [] \<Longrightarrow> str_in w (xs @ ys)"
proof (induction xs)
  case Nil
  then show ?case by simp
next
  case (Cons a xs)
  from Cons.prems(1) have "starts_with w (a # xs) \<or> str_in w xs" by simp
  then show ?case
  proof
    assume "starts_with w (a # xs)"
    then have "starts_with w ((a # xs) @ ys)" by (rule starts_with_append)
    then show ?thesis by simp
  next
    assume "str_in w xs"
    then have "str_in w (xs @ ys)" using Cons.IH Cons.prems(2) by simp
    then show ?thesis by simp
  qed
qed

lemma celebration_message_celebrates:
  "any_word_in celebration_words (lower (celebration_message descr))"
proof -
  have pre: "lower (celebration_message descr)
               = ''i just achieved a win: ''
                 @ lower (descr @ ''. Please celebrate with me and help me build on this momentum!'')"
    by (simp add: celebration_message_def lower_char_def char_of_eq_iff)
  have "str_in ''achieved'' ''i just achieved a win: ''"
    by simp
  then have "str_in ''achieved'' (lower (celebration_message descr))"
    unfolding pre by (rule str_in_append_left) simp
  then show ?thesis
    by (simp add: any_word_in_def celebration_words_def)
qed


subsection \<open>The /win command\<close>

lemma query_user_log_activity:
  "(query_user (fst (log_activity d clk self descr atype mood nts tags)) uid = None)
     \<longleftrightarrow> (query_user d uid = None)"
  using query_user_Some_iff [of "fst (log_activity d clk self descr atype mood nts tags)" uid]
    query_user_Some_iff [of d uid]
  by (simp add: log_activity_tables) (metis not_None_eq)

lemma uc_user_data_log_activity:
  "uc_user_data (snd (log_activity d clk self descr atype mood nts tags)) = None"
  by (simp add: log_activity_def Let_def)

lemma get_user_data_fresh:
  "uc_user_data self = None
     \<Longrightarrow> fst (get_user_data d clk self)
           = (case query_user d (uc_user_id self) of
                None \<Rightarrow> Map.empty
              | Some usr \<Rightarrow> build_user_data d clk self usr)"
  by (simp add: get_user_data_def Let_def split: option.split)

lemma streak_of_fresh_context_nonneg:
  "uc_user_data self = None \<Longrightarrow> 0 \<le> ctx_int (fst (get_user_data d clk self)) ''current_streak'' 0"
  by (simp add: get_user_data_fresh ctx_int_def build_user_data_def split: option.split)

lemma log_win_parts_unfold:
  "log_win_parts coach d clk upd args
     = (fst (log_activity d clk (new_user_context (tg_id (effective_user upd)))
               (win_description args) ''win'' (Some 4) None (Some ''win,celebration'')),
        fst (get_user_data
               (fst (log_activity d clk (new_user_context (tg_id (effective_user upd)))
                       (win_description args) ''win'' (Some 4) None (Some ''win,celebration'')))
               clk
               (snd (log_activity d clk (new_user_context (tg_id (effective_user upd)))
                       (win_description args) ''win'' (Some 4) None (Some ''win,celebration'')))),
        [emoji_party @ '' Win Logged!'' @ nl @ nl
         @ generate_response coach (celebration_message (win_description args))
             (fst (get_user_data
                     (fst (log_activity d clk (new_user_context (tg_id (effective_user upd)))
                             (win_description args) ''win'' (Some 4) None (Some ''win,celebration'')))
                     clk
                     (snd (log_activity d clk (new_user_context (tg_id (effective_user upd)))
                             (win_description args) ''win'' (Some 4) None
                             (Some ''win,celebration'')))))])"
  by (simp add: log_win_parts_def Let_def split_beta)

lemma fallback_response_celebration:
  "\<not> any_word_in procrastination_words (lower (celebration_message descr))
     \<Longrightarrow> \<not> any_word_in impatience_words (lower (celebration_message descr))
     \<Longrightarrow> fallback_response coach (celebration_message descr) cd
           = celebration_reply (ctx_int cd ''current_streak'' 0)
               (ctx_str cd ''execution_phase'' ''planning'')"
  by (simp add: fallback_response_def Let_def celebration_message_celebrates)

lemma landing_page_message:
  "lower (celebration_message (win_description landing_page_args))
     = ''i just achieved a win: launched landing page. please celebrate with me and help me build on this momentum!''"
  by (simp add: celebration_message_def win_description_def landing_page_args_def
        lower_char_def char_of_eq_iff char_eq_char_of_iff)

lemma landing_page_buckets:
  "\<not> any_word_in procrastination_words (lower (celebration_message (win_description landing_page_args)))"
  "\<not> any_word_in impatience_words (lower (celebration_message (win_description landing_page_args)))"
  by (simp_all add: landing_page_message any_word_in_def procrastination_words_def
        impatience_words_def)

lemma avoiding_message:
  "lower (celebration_message (win_description avoiding_args))
     = ''i just achieved a win: finally stopped avoiding the launch. please celebrate with me and help me build on this momentum!''"
  by (simp add: celebration_message_def win_description_def avoiding_args_def
        lower_char_def char_of_eq_iff char_eq_char_of_iff)

text \<open>A description whose \<open>stuck\<close> is written with U+212A KELVIN SIGN falls into the
  procrastination bucket as well.\<close>

lemma kelvin_win_bucket:
  "any_word_in procrastination_words
     (lower (celebration_message (win_description [''Got'', stuck_kelvin, ''twice''])))"
  by (simp add: celebration_message_def win_description_def stuck_kelvin_def kelvin_sign_def
        lower_char_def char_of_eq_iff char_eq_char_of_iff any_word_in_def
        procrastination_words_def)

lemma avoiding_bucket:
  "any_word_in procrastination_words (lower (celebration_message (win_description avoiding_args)))"
  by (simp add: avoiding_message any_word_in_def procrastination_words_def)


text \<open>
  Claim C8, as stated, promises a reply with a streak reference of at least 1 for every
  description. The fallback classifier looks at the whole celebration message, the
  description included, and tries the procrastination bucket first: for a user with no
  rows, \<^verbatim>\<open>/win Finally stopped avoiding the launch\<close> is answered with the procrastination
  template, whose streak reference is 0.
\<close>

theorem log_win_streak_counterexample:
  "snd (log_win coach_disabled empty_db streak_example_clock upd_from_7 avoiding_args)
     = [emoji_party @ '' Win Logged!'' @ nl @ nl
        @ ''I see you're feeling stuck, friend. Your 0-day streak shows you CAN take action! Let's break this down: what's the smallest possible step you could take in the next 5 minutes? Even tiny progress in the planning phase builds momentum. ''
        @ emoji_rocket]"
proof -
  have uid: "tg_id (effective_user upd_from_7) = 7"
    by (simp add: upd_from_7_def)
  have none: "query_user
                (fst (log_activity empty_db streak_example_clock (new_user_context 7)
                        (win_description avoiding_args) ''win'' (Some 4) None
                        (Some ''win,celebration'')))
                7 = None"
    by (simp add: query_user_log_activity query_user_empty_db)
  have cd: "fst (get_user_data
                   (fst (log_activity empty_db streak_example_clock (new_user_context 7)
                           (win_description avoiding_args) ''win'' (Some 4) None
                           (Some ''win,celebration'')))
                   streak_example_clock
                   (snd (log_activity empty_db streak_example_clock (new_user_context 7)
                           (win_description avoiding_args) ''win'' (Some 4) None
                           (Some ''win,celebration'')))) = Map.empty"
    by (simp add: get_user_data_fresh uc_user_data_log_activity uc_user_id_log_activity
          uc_user_id_new none)
  have resp: "generate_response coach_disabled (celebration_message (win_description avoiding_args))
                Map.empty = procrastination_reply None 0 ''planning''"
    by (simp add: generate_response_def coach_disabled_def fallback_response_def Let_def
          avoiding_bucket ctx_defaults_empty)
  have zero: "str_int 0 = ''0''"
    by (simp add: str_int_def char_of_eq_iff)
  have "snd (log_win coach_disabled empty_db streak_example_clock upd_from_7 avoiding_args)
          = [emoji_party @ '' Win Logged!'' @ nl @ nl @ procrastination_reply None 0 ''planning'']"
    by (simp only: log_win_def log_win_parts_unfold uid cd resp split_conv Let_def snd_conv)
  then show ?thesis
    by (simp add: procrastination_reply_def friend_name_def zero)
qed

text \<open>
  Claim C8, amended. \<^verbatim>\<open>/win\<close> with any description, from any identity (with or without
  earlier rows), appends one Activity row with type \<open>win\<close>, mood 4 and the tags
  \<open>win,celebration\<close>, and its single reply starts with the line confirming that a win was
  logged. When the response comes from the fallback path (no credential, or a failed
  generation call) and the celebration message holds no procrastination and no impatience
  keyword, the reply continues with the celebration template, whose day number is the
  streak plus one and so at least 1. For an identity without a User row and the
  description \<open>Launched landing page\<close> that is the celebration template for streak 0 and
  phase \<open>planning\<close>: day 1.
\<close>

theorem log_win_logs_and_celebrates:
  fixes coach :: gemini_coach and d :: db and clk :: clock and upd :: update
    and args :: "string list"
  defines "uid \<equiv> tg_id (effective_user upd)"
    and "descr \<equiv> win_description args"
    and "res \<equiv> log_win_parts coach d clk upd args"
  defines "cd \<equiv> fst (snd res)"
  defines "streak \<equiv> ctx_int cd ''current_streak'' 0"
    and "phase \<equiv> ctx_str cd ''execution_phase'' ''planning''"
    and "m \<equiv> lower (celebration_message descr)"
  shows "log_win coach d clk upd args = (fst res, snd (snd res))
         \<and> activities (fst res)
             = activities d @
               [\<lparr>a_id = length (activities d) + 1, a_user_id = uid, goal_id = None,
                 description = descr, activity_type = ''win'', timestamp = utcnow clk,
                 mood_score = Some 4, a_notes = None, context_tags = Some ''win,celebration''\<rparr>]
         \<and> str_in ''win'' ''win,celebration''
         \<and> snd (snd res)
             = [emoji_party @ '' Win Logged!'' @ nl @ nl
                @ generate_response coach (celebration_message descr) cd]
         \<and> 0 \<le> streak
         \<and> (falls_back coach (celebration_message descr) cd
              \<and> \<not> any_word_in procrastination_words m \<and> \<not> any_word_in impatience_words m \<longrightarrow>
              snd (snd res)
                = [emoji_party @ '' Win Logged!'' @ nl @ nl @ celebration_reply streak phase]
              \<and> 1 \<le> streak + 1)
         \<and> (falls_back coach (celebration_message descr) cd \<and> query_user d uid = None
              \<and> args = landing_page_args \<longrightarrow>
              snd (snd res)
                = [emoji_party @ '' Win Logged!'' @ nl @ nl @ celebration_reply 0 ''planning''])"
proof -
  let ?la = "log_activity d clk (new_user_context uid) descr ''win'' (Some 4) None
               (Some ''win,celebration'')"
  have res: "res = (fst ?la, fst (get_user_data (fst ?la) clk (snd ?la)),
                    [emoji_party @ '' Win Logged!'' @ nl @ nl
                     @ generate_response coach (celebration_message descr)
                         (fst (get_user_data (fst ?la) clk (snd ?la)))])"
    unfolding res_def uid_def descr_def by (rule log_win_parts_unfold)
  have cd: "cd = fst (get_user_data (fst ?la) clk (snd ?la))"
    by (simp add: cd_def res)
  have c1: "log_win coach d clk upd args = (fst res, snd (snd res))"
    by (simp add: log_win_def res_def split_beta)
  have c2: "activities (fst res)
             = activities d @
               [\<lparr>a_id = length (activities d) + 1, a_user_id = uid, goal_id = None,
                 description = descr, activity_type = ''win'', timestamp = utcnow clk,
                 mood_score = Some 4, a_notes = None, context_tags = Some ''win,celebration''\<rparr>]"
    by (simp add: res activities_log_activity uc_user_id_new)
  have c3: "str_in ''win'' ''win,celebration''"
    by simp
  have c4: "snd (snd res)
             = [emoji_party @ '' Win Logged!'' @ nl @ nl
                @ generate_response coach (celebration_message descr) cd]"
    by (simp add: res cd)
  have c5: "0 \<le> streak"
    unfolding streak_def cd
    by (rule streak_of_fresh_context_nonneg) (rule uc_user_data_log_activity)
  have c6: "falls_back coach (celebration_message descr) cd
              \<and> \<not> any_word_in procrastination_words m \<and> \<not> any_word_in impatience_words m \<longrightarrow>
              snd (snd res)
                = [emoji_party @ '' Win Logged!'' @ nl @ nl @ celebration_reply streak phase]
              \<and> 1 \<le> streak + 1"
    using c5
    by (simp add: c4 generate_response_falls_back fallback_response_celebration m_def
          streak_def phase_def)
  have c7: "falls_back coach (celebration_message descr) cd \<and> query_user d uid = None
              \<and> args = landing_page_args \<longrightarrow>
              snd (snd res)
                = [emoji_party @ '' Win Logged!'' @ nl @ nl @ celebration_reply 0 ''planning'']"
  proof (intro impI, elim conjE)
    assume fb: "falls_back coach (celebration_message descr) cd"
      and nouser: "query_user d uid = None" and a: "args = landing_page_args"
    have "query_user (fst ?la) uid = None"
      using nouser by (simp add: query_user_log_activity)
    then have empty: "cd = Map.empty"
      by (simp add: cd get_user_data_fresh uc_user_data_log_activity uc_user_id_log_activity
            uc_user_id_new)
    have "generate_response coach (celebration_message descr) cd
            = celebration_reply (ctx_int cd ''current_streak'' 0)
                (ctx_str cd ''execution_phase'' ''planning'')"
      using fb landing_page_buckets
      by (simp add: generate_response_falls_back fallback_response_celebration descr_def a)
    then show "snd (snd res)
                = [emoji_party @ '' Win Logged!'' @ nl @ nl @ celebration_reply 0 ''planning'']"
      by (simp add: c4 empty ctx_defaults_empty)
  qed
  show ?thesis using c1 c2 c3 c4 c5 c6 c7 by blast
qed

theorem log_win_logs_and_celebrates_witness:
  "falls_back coach_disabled (celebration_message (win_description landing_page_args)) Map.empty
   \<and> query_user empty_db (tg_id (effective_user upd_from_7)) = None
   \<and> snd (log_win coach_disabled empty_db streak_example_clock upd_from_7 landing_page_args)
       = [emoji_party @ '' Win Logged!'' @ nl @ nl
          @ emoji_party
          @ '' Amazing work! That's day 1 of taking action. This is exactly how momentum builds in the planning phase. What felt good about completing that? And what's the next small step to keep this energy going? ''
          @ emoji_muscle]
   \<and> map activity_type
         (activities (fst (log_win coach_disabled empty_db streak_example_clock upd_from_7
                             landing_page_args))) = [''win'']
   \<and> map mood_score
         (activities (fst (log_win coach_disabled empty_db streak_example_clock upd_from_7
                             landing_page_args))) = [Some 4]"
proof -
  have fb: "\<And>cd. falls_back coach_disabled (celebration_message (win_description landing_page_args)) cd"
    by (simp add: falls_back_def coach_disabled_def)
  have q: "query_user empty_db (tg_id (effective_user upd_from_7)) = None"
    by (rule query_user_empty_db)
  note inst = log_win_logs_and_celebrates [of coach_disabled empty_db streak_example_clock
      upd_from_7 landing_page_args]
  have one: "str_int 1 = ''1''"
    by (simp add: str_int_def char_of_eq_iff)
  have reply: "snd (snd (log_win_parts coach_disabled empty_db streak_example_clock upd_from_7
                           landing_page_args))
                 = [emoji_party @ '' Win Logged!'' @ nl @ nl @ celebration_reply 0 ''planning'']"
    using inst fb q by blast
  have acts: "activities (fst (log_win_parts coach_disabled empty_db streak_example_clock
                                 upd_from_7 landing_page_args))
                = activities empty_db @
                  [\<lparr>a_id = length (activities empty_db) + 1,
                    a_user_id = tg_id (effective_user upd_from_7), goal_id = None,
                    description = win_description landing_page_args, activity_type = ''win'',
                    timestamp = utcnow streak_example_clock, mood_score = Some 4,
                    a_notes = None, context_tags = Some ''win,celebration''\<rparr>]"
    using inst by blast
  have lw: "log_win coach_disabled empty_db streak_example_clock upd_from_7 landing_page_args
              = (fst (log_win_parts coach_disabled empty_db streak_example_clock upd_from_7
                        landing_page_args),
                 snd (snd (log_win_parts coach_disabled empty_db streak_example_clock upd_from_7
                             landing_page_args)))"
    using inst by blast
  have r: "snd (log_win coach_disabled empty_db streak_example_clock upd_from_7 landing_page_args)
       = [emoji_party @ '' Win Logged!'' @ nl @ nl
          @ emoji_party
          @ '' Amazing work! That's day 1 of taking action. This is exactly how momentum builds in the planning phase. What felt good about completing that? And what's the next small step to keep this energy going? ''
          @ emoji_muscle]"
    by (simp only: lw snd_conv reply) (simp add: celebration_reply_def one)
  have t: "map activity_type
         (activities (fst (log_win coach_disabled empty_db streak_example_clock upd_from_7
                             landing_page_args))) = [''win'']"
    by (simp only: lw fst_conv acts) (simp add: empty_db_def)
  have mo: "map mood_score
         (activities (fst (log_win coach_disabled empty_db streak_example_clock upd_from_7
                             landing_page_args))) = [Some 4]"
    by (simp only: lw fst_conv acts) (simp add: empty_db_def)
  show ?thesis using fb q r t mo by blast
qed


subsection \<open>Handlers without a User row\<close>

lemma party_not_start_first: "emoji_party @ rest \<noteq> start_first"
  by (simp add: emoji_party_def start_first_def)

lemma log_win_no_user:
  assumes "query_user d (tg_id (effective_user upd)) = None"
  shows "log_win coach d clk upd args
           = (fst (log_activity d clk (new_user_context (tg_id (effective_user upd)))
                     (win_description args) ''win'' (Some 4) None (Some ''win,celebration'')),
              [emoji_party @ '' Win Logged!'' @ nl @ nl
               @ generate_response coach (celebration_message (win_description args)) Map.empty])"
proof -
  let ?la = "log_activity d clk (new_user_context (tg_id (effective_user upd)))
               (win_description args) ''win'' (Some 4) None (Some ''win,celebration'')"
  have "query_user (fst ?la) (tg_id (effective_user upd)) = None"
    using assms by (simp add: query_user_log_activity)
  then have "fst (get_user_data (fst ?la) clk (snd ?la)) = Map.empty"
    by (simp add: get_user_data_fresh uc_user_data_log_activity uc_user_id_log_activity
          uc_user_id_new)
  then show ?thesis
    by (simp add: log_win_def log_win_parts_unfold)
qed

lemma unstuck_fallback_no_user:
  "fallback_response coach unstuck_message Map.empty
     = ''I see you're feeling stuck, friend. Your 0-day streak shows you CAN take action! Let's break this down: what's the smallest possible step you could take in the next 5 minutes? Even tiny progress in the planning phase builds momentum. ''
       @ emoji_rocket"
proof -
  have kw: "any_word_in procrastination_words (lower unstuck_message)"
    by (simp add: unstuck_message_def lower_char_def char_of_eq_iff char_eq_char_of_iff
          any_word_in_def procrastination_words_def)
  have zero: "str_int 0 = ''0''"
    by (simp add: str_int_def char_of_eq_iff)
  have "fallback_response coach unstuck_message Map.empty
          = procrastination_reply None 0 ''planning''"
    by (simp add: fallback_response_def Let_def kw ctx_defaults_empty)
  then show ?thesis
    by (simp add: procrastination_reply_def friend_name_def zero)
qed

text \<open>
  Claim C6, amended. For an identity without a User row, \<^verbatim>\<open>get_user_data\<close> on a fresh
  \<^verbatim>\<open>UserContext\<close> does not fail with NotFound: it returns the empty dict and caches
  nothing. \<^verbatim>\<open>/stuck\<close> and \<^verbatim>\<open>/win\<close> do not turn this into a prompt to initialise: each
  appends its Activity row and replies with its header followed by the response generated
  from the empty dict, which on the fallback path is a template filled with the name
  \<open>friend\<close>, streak 0 and phase \<open>planning\<close>. For such an identity the prompt to use
  \<^verbatim>\<open>/start\<close> first is the reply of \<^verbatim>\<open>/idea\<close> with an argument and of \<^verbatim>\<open>/phase\<close> with
  a valid phase, which look the User row up themselves and do not aggregate.
\<close>

theorem get_user_data_without_user:
  assumes "query_user d (tg_id (effective_user upd)) = None"
  shows "get_user_data d clk (new_user_context (tg_id (effective_user upd)))
           = (Map.empty, new_user_context (tg_id (effective_user upd)))
         \<and> snd (handle_stuck coach d clk upd)
             = [emoji_siren @ '' Stuck Alert Activated!'' @ nl @ nl
                @ generate_response coach unstuck_message Map.empty]
         \<and> snd (handle_stuck coach d clk upd) \<noteq> [start_first]
         \<and> activities (fst (handle_stuck coach d clk upd))
             = activities d @
               [\<lparr>a_id = length (activities d) + 1, a_user_id = tg_id (effective_user upd),
                 goal_id = None, description = ''User reported feeling stuck'',
                 activity_type = ''blocker'', timestamp = utcnow clk, mood_score = None,
                 a_notes = None, context_tags = Some ''procrastination,stuck''\<rparr>]
         \<and> snd (log_win coach d clk upd args)
             = [emoji_party @ '' Win Logged!'' @ nl @ nl
                @ generate_response coach (celebration_message (win_description args)) Map.empty]
         \<and> snd (log_win coach d clk upd args) \<noteq> [start_first]
         \<and> activities (fst (log_win coach d clk upd args))
             = activities d @
               [\<lparr>a_id = length (activities d) + 1, a_user_id = tg_id (effective_user upd),
                 goal_id = None, description = win_description args,
                 activity_type = ''win'', timestamp = utcnow clk, mood_score = Some 4,
                 a_notes = None, context_tags = Some ''win,celebration''\<rparr>]
         \<and> (falls_back coach unstuck_message Map.empty \<longrightarrow>
               generate_response coach unstuck_message Map.empty
                 = ''I see you're feeling stuck, friend. Your 0-day streak shows you CAN take action! Let's break this down: what's the smallest possible step you could take in the next 5 minutes? Even tiny progress in the planning phase builds momentum. ''
                   @ emoji_rocket)
         \<and> (falls_back coach (celebration_message (win_description args)) Map.empty \<longrightarrow>
               generate_response coach (celebration_message (win_description args)) Map.empty
                 = bucket_reply (spec_fallback_bucket (celebration_message (win_description args)))
                     None 0 ''planning'')
         \<and> set_business_idea d upd (idea_arg # idea_args) = (d, [start_first])
         \<and> (lower phase_arg \<in> set valid_phases \<longrightarrow>
               set_phase d upd (phase_arg # phase_args) = (d, [start_first]))"
proof -
  have a: "get_user_data d clk (new_user_context (tg_id (effective_user upd)))
             = (Map.empty, new_user_context (tg_id (effective_user upd)))"
    using assms by (simp add: get_user_data_no_user new_user_context_def)
  have s1: "snd (handle_stuck coach d clk upd)
             = [emoji_siren @ '' Stuck Alert Activated!'' @ nl @ nl
                @ generate_response coach unstuck_message Map.empty]"
    by (simp add: handle_stuck_no_user [OF assms])
  have s2: "snd (handle_stuck coach d clk upd) \<noteq> [start_first]"
    by (simp add: s1 siren_not_start_first)
  have s3: "activities (fst (handle_stuck coach d clk upd))
             = activities d @
               [\<lparr>a_id = length (activities d) + 1, a_user_id = tg_id (effective_user upd),
                 goal_id = None, description = ''User reported feeling stuck'',
                 activity_type = ''blocker'', timestamp = utcnow clk, mood_score = None,
                 a_notes = None, context_tags = Some ''procrastination,stuck''\<rparr>]"
    by (simp add: handle_stuck_no_user [OF assms] activities_log_activity uc_user_id_new)
  have w1: "snd (log_win coach d clk upd args)
             = [emoji_party @ '' Win Logged!'' @ nl @ nl
                @ generate_response coach (celebration_message (win_description args)) Map.empty]"
    by (simp add: log_win_no_user [OF assms])
  have w2: "snd (log_win coach d clk upd args) \<noteq> [start_first]"
    by (simp add: w1 party_not_start_first)
  have w3: "activities (fst (log_win coach d clk upd args))
             = activities d @
               [\<lparr>a_id = length (activities d) + 1, a_user_id = tg_id (effective_user upd),
                 goal_id = None, description = win_description args,
                 activity_type = ''win'', timestamp = utcnow clk, mood_score = Some 4,
                 a_notes = None, context_tags = Some ''win,celebration''\<rparr>]"
    by (simp add: log_win_no_user [OF assms] activities_log_activity uc_user_id_new)
  have f1: "falls_back coach unstuck_message Map.empty \<longrightarrow>
               generate_response coach unstuck_message Map.empty
                 = ''I see you're feeling stuck, friend. Your 0-day streak shows you CAN take action! Let's break this down: what's the smallest possible step you could take in the next 5 minutes? Even tiny progress in the planning phase builds momentum. ''
                   @ emoji_rocket"
    by (simp add: generate_response_falls_back unstuck_fallback_no_user)
  have f2: "falls_back coach (celebration_message (win_description args)) Map.empty \<longrightarrow>
               generate_response coach (celebration_message (win_description args)) Map.empty
                 = bucket_reply (spec_fallback_bucket (celebration_message (win_description args)))
                     None 0 ''planning''"
    by (simp add: generate_response_falls_back fallback_response_bucket ctx_defaults_empty)
  have idea: "set_business_idea d upd (idea_arg # idea_args) = (d, [start_first])"
    using assms by (simp add: set_business_idea_def Let_def)
  have phase: "lower phase_arg \<in> set valid_phases \<longrightarrow>
                 set_phase d upd (phase_arg # phase_args) = (d, [start_first])"
    using assms by (simp add: set_phase_def Let_def)
  show ?thesis
    using a s1 s2 s3 w1 w2 w3 f1 f2 idea phase by blast
qed

theorem get_user_data_without_user_witness:
  "query_user empty_db (tg_id (effective_user upd_from_7)) = None
   \<and> falls_back coach_disabled unstuck_message Map.empty
   \<and> lower ''MVP'' \<in> set valid_phases
   \<and> get_user_data empty_db streak_example_clock (new_user_context 7)
       = (Map.empty, new_user_context 7)
   \<and> snd (handle_stuck coach_disabled empty_db streak_example_clock upd_from_7)
       = [emoji_siren @ '' Stuck Alert Activated!'' @ nl @ nl
          @ ''I see you're feeling stuck, friend. Your 0-day streak shows you CAN take action! Let's break this down: what's the smallest possible step you could take in the next 5 minutes? Even tiny progress in the planning phase builds momentum. ''
          @ emoji_rocket]
   \<and> set_phase empty_db upd_from_7 [''MVP''] = (empty_db, [start_first])"
proof -
  have q: "query_user empty_db (tg_id (effective_user upd_from_7)) = None"
    by (rule query_user_empty_db)
  have fb: "falls_back coach_disabled unstuck_message Map.empty"
    by (simp add: falls_back_def coach_disabled_def)
  have mvp: "lower ''MVP'' \<in> set valid_phases"
    by (simp add: lower_char_def char_of_eq_iff valid_phases_def)
  have uid: "tg_id (effective_user upd_from_7) = 7"
    by (simp add: upd_from_7_def)
  note inst = get_user_data_without_user [OF q, of streak_example_clock coach_disabled _ _ _
      "''MVP''" "[]"]
  have g: "get_user_data empty_db streak_example_clock (new_user_context 7)
             = (Map.empty, new_user_context 7)"
    using inst by (simp add: uid)
  have r: "snd (handle_stuck coach_disabled empty_db streak_example_clock upd_from_7)
       = [emoji_siren @ '' Stuck Alert Activated!'' @ nl @ nl
          @ ''I see you're feeling stuck, friend. Your 0-day streak shows you CAN take action! Let's break this down: what's the smallest possible step you could take in the next 5 minutes? Even tiny progress in the planning phase builds momentum. ''
          @ emoji_rocket]"
    using inst fb by simp
  have p: "set_phase empty_db upd_from_7 [''MVP''] = (empty_db, [start_first])"
    using inst mvp by blast
  show ?thesis using q fb mvp g r p by blast
qed

subsection \<open>The origin logged by handle\_message\<close>

lemma generate_response_failure:
  "falls_back coach message cd
     \<Longrightarrow> generate_response coach message cd = fallback_response coach message cd
         \<and> generate_response coach message cd \<noteq> []"
  by (simp add: generate_response_falls_back fallback_response_not_Nil)

lemma handle_message_logged:
  "conversations (fst (handle_message coach d clk upd))
     = conversations (fst (get_or_create_user d clk (effective_user upd))) @
       [\<lparr>c_id = length (conversations (fst (get_or_create_user d clk (effective_user upd)))) + 1,
         c_user_id = tg_id (effective_user upd),
         message_text = text_in upd,
         bot_response =
           generate_response coach (text_in upd)
             (fst (get_user_data (fst (get_or_create_user d clk (effective_user upd))) clk
                     (new_user_context (tg_id (effective_user upd))))),
         c_context_tags = analyze_message_context (text_in upd),
         c_timestamp = utcnow clk,
         response_type = (if enabled coach then ''gemini'' else ''fallback'')\<rparr>]"
  by (simp add: handle_message_def Let_def split_beta)

lemma coach_failing_falls_back: "falls_back coach_failing message cd"
  by (simp add: falls_back_def coach_failing_def generate_content_def)

lemma hello_is_general:
  "fallback_response coach ''hello'' cd
     = general_reply (ctx_user cd) (ctx_int cd ''current_streak'' 0)
         (ctx_str cd ''execution_phase'' ''planning'')"
  by (simp add: fallback_response_def Let_def lower_char_def any_word_in_def
        procrastination_words_def impatience_words_def celebration_words_def)

text \<open>
  Claim C2 on the code. With generation enabled and the generation call raising a service
  error, \<^verbatim>\<open>handle_message\<close> answers the first message of a new user with the non-empty
  fallback text and raises nothing, but the Conversation row it writes carries the origin
  \<open>gemini\<close>: the origin is taken from the coach's \<open>enabled\<close> flag, not from the path the
  response took.
\<close>

theorem handle_message_logs_gemini_for_fallback:
  "snd (handle_message coach_failing empty_db streak_example_clock upd_from_7)
     = [fallback_response coach_failing ''hello''
          (fst (get_user_data
                  (fst (get_or_create_user empty_db streak_example_clock (effective_user upd_from_7)))
                  streak_example_clock (new_user_context 7)))]
   \<and> map bot_response
         (conversations (fst (handle_message coach_failing empty_db streak_example_clock upd_from_7)))
       = [''I'm here to help you execute, Ada! You're in the planning phase with a 0-day action streak. What's on your mind? Use /stuck if you're procrastinating, /win to celebrate progress, or just tell me what you're working on! ''
          @ emoji_target]
   \<and> map response_type
         (conversations (fst (handle_message coach_failing empty_db streak_example_clock upd_from_7)))
       = [''gemini'']"
proof -
  let ?d1 = "fst (get_or_create_user empty_db streak_example_clock (effective_user upd_from_7))"
  let ?cd = "fst (get_user_data ?d1 streak_example_clock (new_user_context 7))"
  have uid: "tg_id (effective_user upd_from_7) = 7" and intext: "text_in upd_from_7 = ''hello''"
    by (simp_all add: upd_from_7_def)
  have d1: "?d1 = \<lparr>users = [\<lparr>u_id = 1, telegram_id = 7, username = None, first_name = Some ''Ada'',
                      current_business_idea = None, execution_phase = ''planning'',
                      created_at = utcnow streak_example_clock, timezone = ''UTC'',
                      preferred_checkin_time = ''18:00'', total_activities = 0,
                      last_active = utcnow streak_example_clock\<rparr>],
                 goals = [], activities = [], progress_rows = [], conversations = []\<rparr>"
    by (simp add: get_or_create_user_def query_user_def empty_db_def upd_from_7_def Let_def)
  have streak: "calculate_streak ?d1 streak_example_clock (new_user_context 7) = 0"
    by (simp add: d1 calculate_streak_def activities_desc_def)
  have q: "query_user ?d1 7 = Some \<lparr>u_id = 1, telegram_id = 7, username = None, first_name = Some ''Ada'',
                      current_business_idea = None, execution_phase = ''planning'',
                      created_at = utcnow streak_example_clock, timezone = ''UTC'',
                      preferred_checkin_time = ''18:00'', total_activities = 0,
                      last_active = utcnow streak_example_clock\<rparr>"
    by (simp add: d1 query_user_def)
  have cd: "ctx_user ?cd = query_user ?d1 7" "ctx_int ?cd ''current_streak'' 0 = 0"
    "ctx_str ?cd ''execution_phase'' ''planning'' = ''planning''"
    by (simp_all add: get_user_data_fresh new_user_context_def q build_user_data_def
          ctx_user_def ctx_int_def ctx_str_def streak [unfolded new_user_context_def])
  have zero: "str_int 0 = ''0''"
    by (simp add: str_int_def char_of_eq_iff)
  have resp: "generate_response coach_failing ''hello'' ?cd = fallback_response coach_failing ''hello'' ?cd"
    by (rule generate_response_falls_back) (rule coach_failing_falls_back)
  have text_eq: "fallback_response coach_failing ''hello'' ?cd
      = ''I'm here to help you execute, Ada! You're in the planning phase with a 0-day action streak. What's on your mind? Use /stuck if you're procrastinating, /win to celebrate progress, or just tell me what you're working on! ''
          @ emoji_target"
    by (simp only: hello_is_general cd q) (simp add: general_reply_def friend_name_def str_opt_def zero)
  have convs: "conversations ?d1 = []"
    by (simp add: d1)
  have en: "enabled coach_failing"
    by (simp add: coach_failing_def)
  have logged: "conversations (fst (handle_message coach_failing empty_db streak_example_clock upd_from_7))
      = [\<lparr>c_id = 1, c_user_id = 7, message_text = ''hello'',
          bot_response = fallback_response coach_failing ''hello'' ?cd,
          c_context_tags = analyze_message_context ''hello'',
          c_timestamp = utcnow streak_example_clock, response_type = ''gemini''\<rparr>]"
    by (simp only: handle_message_logged uid intext convs resp en if_True) simp
  have reply: "snd (handle_message coach_failing empty_db streak_example_clock upd_from_7)
                 = [fallback_response coach_failing ''hello'' ?cd]"
    using resp by (simp add: handle_message_def Let_def split_beta uid intext)
  show ?thesis
    by (simp only: logged reply) (simp add: text_eq)
qed

subsection \<open>Logging, then aggregating again\<close>

lemma foldr_insort_key_least:
  "\<forall>y\<in>set xs. f x < f y
     \<Longrightarrow> foldr (insort_key f) xs [x] = x # foldr (insort_key f) xs []"
proof (induction xs)
  case Nil
  then show ?case by simp
next
  case (Cons a xs)
  then have "\<not> f a \<le> f x" by auto
  then show ?case using Cons by simp
qed

lemma sort_key_snoc_least:
  "\<forall>y\<in>set xs. f x < f y \<Longrightarrow> sort_key f (xs @ [x]) = x # sort_key f xs"
  by (simp add: sort_key_def foldr_insort_key_least)

lemma find_update_first:
  "(\<And>x. P x \<Longrightarrow> P (f x)) \<Longrightarrow> find P (update_first P f xs) = map_option f (find P xs)"
  by (induction xs) simp_all

text \<open>\<^verbatim>\<open>log_activity\<close> resets the cache, so
  aggregating again on the same \<^verbatim>\<open>UserContext\<close> reads the store. For a user with a User
  row whose earlier activities are all stamped before the present instant, the new dict
  counts one activity more and lists the new activity first.\<close>

lemma log_activity_then_get_user_data:
  fixes d :: db and clk :: clock and self :: user_context
    and descr :: string and atype :: string and mood :: "int option"
    and nts :: "string option" and tags :: "string option"
  defines "logged \<equiv> log_activity d clk self descr atype mood nts tags"
  defines "cd \<equiv> fst (get_user_data (fst logged) clk (snd logged))"
  assumes usr: "query_user d (uc_user_id self) = Some usr"
    and earlier: "\<forall>a\<in>set (activities d). a_user_id a = uc_user_id self \<longrightarrow> timestamp a < utcnow clk"
  shows "cd ''total_activities'' = Some (VInt (total_activities usr + 1))"
    and "cd ''recent_activities''
           = Some (VActivities
                 (take 20
                    (\<lparr>a_id = length (activities d) + 1, a_user_id = uc_user_id self,
                      goal_id = None, description = descr, activity_type = atype,
                      timestamp = utcnow clk, mood_score = mood, a_notes = nts,
                      context_tags = tags\<rparr>
                     # activities_desc d (uc_user_id self))))"
proof -
  let ?new = "\<lparr>a_id = length (activities d) + 1, a_user_id = uc_user_id self,
                goal_id = None, description = descr, activity_type = atype,
                timestamp = utcnow clk, mood_score = mood, a_notes = nts,
                context_tags = tags\<rparr>"
  let ?bump = "\<lambda>u. u\<lparr>total_activities := total_activities u + 1, last_active := utcnow clk\<rparr>"
  have users': "users (fst logged)
                  = update_first (\<lambda>u. telegram_id u = uc_user_id self) ?bump (users d)"
    using usr by (simp add: logged_def log_activity_def Let_def query_user_def)
  have q: "query_user (fst logged) (uc_user_id self) = Some (?bump usr)"
    using usr by (simp add: query_user_def users' find_update_first)
  have fresh: "uc_user_data (snd logged) = None" "uc_user_id (snd logged) = uc_user_id self"
    by (simp_all add: logged_def uc_user_data_log_activity uc_user_id_log_activity)
  have cd: "cd = build_user_data (fst logged) clk (snd logged) (?bump usr)"
    by (simp add: cd_def get_user_data_fresh fresh q)
  show "cd ''total_activities'' = Some (VInt (total_activities usr + 1))"
    by (simp add: cd build_user_data_def)
  have keys: "\<forall>y\<in>set (filter (\<lambda>a. a_user_id a = uc_user_id self) (activities d)).
                - timestamp ?new < - timestamp y"
    using earlier by simp
  have "activities_desc (fst logged) (uc_user_id self)
          = sort_key (\<lambda>a. - timestamp a)
              (filter (\<lambda>a. a_user_id a = uc_user_id self) (activities d) @ [?new])"
    by (simp add: activities_desc_def logged_def activities_log_activity)
  also have "\<dots> = ?new # activities_desc d (uc_user_id self)"
    unfolding activities_desc_def using keys by (rule sort_key_snoc_least)
  finally have "activities_desc (fst logged) (uc_user_id self)
                  = ?new # activities_desc d (uc_user_id self)" .
  then show "cd ''recent_activities''
           = Some (VActivities (take 20 (?new # activities_desc d (uc_user_id self))))"
    by (simp add: cd build_user_data_def fresh)
qed

subsection \<open>The context handed to prompt assembly by /stuck\<close>

lemma handle_stuck_parts_unfold:
  "handle_stuck_parts coach d clk upd
     = (fst (log_activity d clk (new_user_context (tg_id (effective_user upd)))
               ''User reported feeling stuck'' ''blocker'' None None
               (Some ''procrastination,stuck'')),
        fst (get_user_data d clk (new_user_context (tg_id (effective_user upd)))),
        [emoji_siren @ '' Stuck Alert Activated!'' @ nl @ nl
         @ generate_response coach unstuck_message
             (fst (get_user_data d clk (new_user_context (tg_id (effective_user upd)))))])"
proof -
  have "fst (log_activity d clk
               (snd (get_user_data d clk (new_user_context (tg_id (effective_user upd)))))
               ''User reported feeling stuck'' ''blocker'' None None
               (Some ''procrastination,stuck''))
          = fst (log_activity d clk (new_user_context (tg_id (effective_user upd)))
               ''User reported feeling stuck'' ''blocker'' None None
               (Some ''procrastination,stuck''))"
    by (rule fst_log_activity_uid) (rule uc_user_id_get_user_data)
  then show ?thesis
    by (simp add: handle_stuck_parts_def Let_def split_beta)
qed


text \<open>
  Claim C3 on the code. User 7 has a User row and no activity. \<^verbatim>\<open>/stuck\<close> reads the
  context, then logs the blocker, then generates the response from the context it read
  before the write: that context still counts 0 activities, lists none and has streak 0,
  while the store it leaves holds the new Activity row and a count of 1, which is also
  what aggregating again returns. \<^verbatim>\<open>/win\<close> on the same store logs first and reads
  afterwards, and hands over a context that counts 1.
\<close>

theorem handle_stuck_hands_over_stale_context:
  "fst (snd (handle_stuck_parts coach_disabled started_db streak_example_clock upd_from_7))
       ''total_activities'' = Some (VInt 0)
   \<and> fst (snd (handle_stuck_parts coach_disabled started_db streak_example_clock upd_from_7))
       ''recent_activities'' = Some (VActivities [])
   \<and> fst (snd (handle_stuck_parts coach_disabled started_db streak_example_clock upd_from_7))
       ''current_streak'' = Some (VInt 0)
   \<and> snd (snd (handle_stuck_parts coach_disabled started_db streak_example_clock upd_from_7))
       = [emoji_siren @ '' Stuck Alert Activated!'' @ nl @ nl
          @ generate_response coach_disabled unstuck_message
              (fst (snd (handle_stuck_parts coach_disabled started_db streak_example_clock
                           upd_from_7)))]
   \<and> map activity_type
         (activities (fst (handle_stuck_parts coach_disabled started_db streak_example_clock
                             upd_from_7))) = [''blocker'']
   \<and> map total_activities
         (users (fst (handle_stuck_parts coach_disabled started_db streak_example_clock
                        upd_from_7))) = [1]
   \<and> fst (get_user_data
            (fst (handle_stuck_parts coach_disabled started_db streak_example_clock upd_from_7))
            streak_example_clock (new_user_context 7))
       ''total_activities'' = Some (VInt 1)
   \<and> fst (snd (log_win_parts coach_disabled started_db streak_example_clock upd_from_7
                  landing_page_args))
       ''total_activities'' = Some (VInt 1)"
proof -
  let ?ada = "example_user 1 7 ''Ada'' (100 * 86400000000)"
  let ?stuck = "log_activity started_db streak_example_clock (new_user_context 7)
                  ''User reported feeling stuck'' ''blocker'' None None
                  (Some ''procrastination,stuck'')"
  let ?win = "log_activity started_db streak_example_clock (new_user_context 7)
                (win_description landing_page_args) ''win'' (Some 4) None
                (Some ''win,celebration'')"
  have uid: "tg_id (effective_user upd_from_7) = 7"
    by (simp add: upd_from_7_def)
  have q0: "query_user started_db 7 = Some ?ada"
    by (simp add: query_user_def started_db_def example_user_def)
  have streak0: "calculate_streak started_db streak_example_clock (new_user_context 7) = 0"
    by (simp add: calculate_streak_def activities_desc_def started_db_def)
  have before: "fst (get_user_data started_db streak_example_clock (new_user_context 7))
                  = build_user_data started_db streak_example_clock (new_user_context 7) ?ada"
    by (simp add: get_user_data_fresh new_user_context_def q0 [unfolded new_user_context_def])
  have b1: "build_user_data started_db streak_example_clock (new_user_context 7) ?ada
              ''total_activities'' = Some (VInt 0)"
    by (simp add: build_user_data_def example_user_def)
  have b2: "build_user_data started_db streak_example_clock (new_user_context 7) ?ada
              ''recent_activities'' = Some (VActivities [])"
    by (simp add: build_user_data_def activities_desc_def started_db_def)
  have b3: "build_user_data started_db streak_example_clock (new_user_context 7) ?ada
              ''current_streak'' = Some (VInt 0)"
    by (simp add: build_user_data_def streak0)
  have users_after: "\<And>descr atype mood tags.
      users (fst (log_activity started_db streak_example_clock (new_user_context 7)
                    descr atype mood None tags))
        = [?ada\<lparr>total_activities := 1, last_active := utcnow streak_example_clock\<rparr>]"
    by (simp add: log_activity_def Let_def query_user_def started_db_def example_user_def
          new_user_context_def)
  have q1: "\<And>descr atype mood tags.
      query_user (fst (log_activity started_db streak_example_clock (new_user_context 7)
                         descr atype mood None tags)) 7
        = Some (?ada\<lparr>total_activities := 1, last_active := utcnow streak_example_clock\<rparr>)"
    by (simp add: query_user_def users_after example_user_def)
  have after: "\<And>descr atype mood tags self.
      uc_user_data self = None \<Longrightarrow> uc_user_id self = 7 \<Longrightarrow>
      fst (get_user_data
             (fst (log_activity started_db streak_example_clock (new_user_context 7)
                     descr atype mood None tags))
             streak_example_clock self) ''total_activities'' = Some (VInt 1)"
    by (simp add: get_user_data_fresh q1 build_user_data_def)
  have acts: "map activity_type (activities (fst ?stuck)) = [''blocker'']"
    by (simp add: activities_log_activity started_db_def)
  have totals: "map total_activities (users (fst ?stuck)) = [1]"
    by (simp add: users_after)
  have again: "fst (get_user_data (fst ?stuck) streak_example_clock (new_user_context 7))
                 ''total_activities'' = Some (VInt 1)"
    by (rule after) (simp_all add: new_user_context_def)
  have win: "fst (get_user_data (fst ?win) streak_example_clock (snd ?win))
               ''total_activities'' = Some (VInt 1)"
    by (rule after) (simp_all add: uc_user_data_log_activity uc_user_id_log_activity uc_user_id_new)
  show ?thesis
    by (simp only: handle_stuck_parts_unfold log_win_parts_unfold uid fst_conv snd_conv
          before b1 b2 b3 acts totals again win)
qed

end
